theory Spec2Isabelle
  imports Complex_Main
begin

section \<open>The daily accrual engine of server.js\<close>

text \<open>
  The development embeds the two tables \<^verbatim>\<open>daily_stats\<close> and \<^verbatim>\<open>activity_log\<close>, the
  prepared statements that read and write them, \<^verbatim>\<open>ensureToday\<close> and the two routes that
  call it (\<^verbatim>\<open>GET /api/me\<close>, \<^verbatim>\<open>POST /api/log\<close>).

  Conventions of the embedding:
  \<^item> A JavaScript number is a double: a finite one is given by its exact value, and the
    infinities and \<open>NaN\<close> are values of their own. An addition whose exact result is a
    double below \<open>2^53\<close> in magnitude returns that result, as IEEE arithmetic does; any
    other sum is the double the engine rounds to, which is a parameter. Negative zero is
    not told apart from zero.
  \<^item> A field of the JSON request body is a \<open>jsval\<close>: absent (\<open>undefined\<close>), \<open>null\<close>, a
    boolean, a number or a string. Arrays and objects are not modelled.
  \<^item> A table is the list of its rows in insertion order. The columns \<^verbatim>\<open>id\<close> and
    \<^verbatim>\<open>created_at\<close> are left out; the \<^verbatim>\<open>id\<close> of a log row is its position in the list.
  \<^item> The user id comes from the session after \<^verbatim>\<open>requireAuth\<close> and names an existing user,
    so the foreign keys hold. The reply of \<^verbatim>\<open>GET /api/me\<close> is modelled without the
    session's \<^verbatim>\<open>username\<close>.
  \<^item> The wall clock is read at each call of \<^verbatim>\<open>todayStr()\<close> and \<^verbatim>\<open>yesterdayStr()\<close>: the
    route \<^verbatim>\<open>POST /api/log\<close> reads its date first, \<^verbatim>\<open>ensureToday\<close> reads its own two
    afterwards, and the readings need not agree.
  \<^item> Nothing is rolled back: the code opens no transaction, so a handler that throws
    keeps the writes it made before. Every handler returns its reply with the database
    it leaves behind.
\<close>

subsection \<open>JavaScript values\<close>

datatype number = Fin rat | PInf | NInf | NaN

datatype jsval = JUndefined | JNull | JBool bool | JNum number | JStr string

datatype sqlval = SqlNull | SqlInt int | SqlReal number | SqlText string

type_synonym uid = int
type_synonym date = string

text \<open>
  What the handlers take from outside the file. The clock: \<open>routeToday\<close> is the reading
  of \<^verbatim>\<open>todayStr()\<close> in the route \<^verbatim>\<open>POST /api/log\<close>, \<open>todayStr\<close> and \<open>yesterdayStr\<close> are the
  readings inside \<^verbatim>\<open>ensureToday\<close>. The engine: \<open>roundDouble\<close> is the double an exact
  value is rounded to, \<open>numberToString\<close> and \<open>stringToNumber\<close> are JavaScript's
  conversions. SQLite: \<open>sqlNumericText\<close> is the number a text that is a numeric literal
  is stored as in an \<^verbatim>\<open>INTEGER\<close> column, \<open>sqlRenderNumber\<close> the text a number is stored
  as in a \<^verbatim>\<open>TEXT\<close> column, \<open>sqlFloatSum\<close> the floating-point result of \<^verbatim>\<open>SUM\<close>
  where it is inexact.
\<close>

record env =
  routeToday :: date
  todayStr :: date
  yesterdayStr :: date
  roundDouble :: "rat \<Rightarrow> number"
  numberToString :: "number \<Rightarrow> string"
  stringToNumber :: "string \<Rightarrow> number"
  sqlNumericText :: "string \<Rightarrow> sqlval option"
  sqlRenderNumber :: "number \<Rightarrow> string"
  sqlFloatSum :: "sqlval list \<Rightarrow> number"

text \<open>\<open>!v\<close> is \<open>\<not> truthy v\<close>.\<close>

fun truthy :: "jsval \<Rightarrow> bool" where
  "truthy JUndefined = False"
| "truthy JNull = False"
| "truthy (JBool b) = b"
| "truthy (JNum n) = (n \<noteq> Fin 0 \<and> n \<noteq> NaN)"
| "truthy (JStr s) = (s \<noteq> [])"

text \<open>\<open>ToNumber\<close>.\<close>

fun toNumber :: "env \<Rightarrow> jsval \<Rightarrow> number" where
  "toNumber e JUndefined = NaN"
| "toNumber e JNull = Fin 0"
| "toNumber e (JBool b) = Fin (if b then 1 else 0)"
| "toNumber e (JNum n) = n"
| "toNumber e (JStr s) = stringToNumber e s"

fun toString :: "env \<Rightarrow> jsval \<Rightarrow> string" where
  "toString e JUndefined = ''undefined''"
| "toString e JNull = ''null''"
| "toString e (JBool b) = (if b then ''true'' else ''false'')"
| "toString e (JNum n) = numberToString e n"
| "toString e (JStr s) = s"

fun isString :: "jsval \<Rightarrow> bool" where
  "isString (JStr s) = True"
| "isString v = False"

text \<open>
  A double below \<open>2^53\<close> in magnitude: an integer multiple of a power of two down to
  \<open>2^-1074\<close>, with fewer than 54 bits.
\<close>

definition exact_small :: "rat \<Rightarrow> bool" where
  "exact_small x =
     (\<exists>k \<in> {0 .. 1074 :: nat}. of_int \<lfloor>x * 2 ^ k\<rfloor> = x * 2 ^ k \<and> \<bar>x * 2 ^ k\<bar> < 2 ^ 53)"

text \<open>Addition of two numbers.\<close>

fun num_add :: "env \<Rightarrow> number \<Rightarrow> number \<Rightarrow> number" where
  "num_add e (Fin x) (Fin y) =
     (if exact_small (x + y) then Fin (x + y) else roundDouble e (x + y))"
| "num_add e NaN b = NaN"
| "num_add e a NaN = NaN"
| "num_add e PInf NInf = NaN"
| "num_add e NInf PInf = NaN"
| "num_add e PInf b = PInf"
| "num_add e a PInf = PInf"
| "num_add e NInf b = NInf"
| "num_add e a NInf = NInf"

text \<open>The operator \<open>+\<close> on primitives: concatenation when an operand is a string.\<close>

definition js_plus :: "env \<Rightarrow> jsval \<Rightarrow> jsval \<Rightarrow> jsval" where
  "js_plus e a b =
     (if isString a \<or> isString b then JStr (toString e a @ toString e b)
      else JNum (num_add e (toNumber e a) (toNumber e b)))"

text \<open>\<open>Math.max(0, v)\<close>.\<close>

definition math_max0 :: "env \<Rightarrow> jsval \<Rightarrow> number" where
  "math_max0 e v =
     (case toNumber e v of
        Fin r \<Rightarrow> Fin (max 0 r)
      | PInf \<Rightarrow> PInf
      | NInf \<Rightarrow> Fin 0
      | NaN \<Rightarrow> NaN)"

text \<open>\<open>x >= g\<close> for a number \<open>x\<close> and a finite \<open>g\<close>.\<close>

fun js_ge :: "number \<Rightarrow> rat \<Rightarrow> bool" where
  "js_ge (Fin x) g = (g \<le> x)"
| "js_ge PInf g = True"
| "js_ge NInf g = False"
| "js_ge NaN g = False"

subsection \<open>The tables\<close>

text \<open>
  A row of \<^verbatim>\<open>daily_stats\<close>. The column \<^verbatim>\<open>energy\<close> has no \<^verbatim>\<open>NOT NULL\<close>: \<open>None\<close> is
  \<^verbatim>\<open>NULL\<close>, which is what a bound \<open>NaN\<close> is stored as and what JavaScript reads back
  as \<open>null\<close>; any other number is read back as it was written. The two flags are the
  integers the code writes, 0 and 1.
\<close>

record daily_stats_row =
  user_id :: uid
  date :: date
  energy :: "number option"
  battery_earned :: int
  bonus_applied :: int

record activity_log_row =
  log_user_id :: uid
  log_type :: string
  log_points :: sqlval
  log_date :: date

record db =
  daily_stats :: "daily_stats_row list"
  activity_log :: "activity_log_row list"

definition empty_db :: db where
  "empty_db = \<lparr>daily_stats = [], activity_log = []\<rparr>"

datatype error = TypeError | SqliteConstraint | SqliteOverflow

subsection \<open>Prepared statements\<close>

definition getDailyStats :: "db \<Rightarrow> uid \<Rightarrow> date \<Rightarrow> daily_stats_row option" where
  "getDailyStats d userId day =
     find (\<lambda>r. user_id r = userId \<and> date r = day) (daily_stats d)"

definition getYesterday :: "db \<Rightarrow> uid \<Rightarrow> date \<Rightarrow> daily_stats_row option" where
  "getYesterday d userId day =
     find (\<lambda>r. user_id r = userId \<and> date r = day) (daily_stats d)"

text \<open>
  \<^verbatim>\<open>INSERT ... ON CONFLICT(user_id, date) DO UPDATE\<close>: the row with the key takes the
  three new values; without such a row the new one is appended.
\<close>

fun upsert_row :: "daily_stats_row \<Rightarrow> daily_stats_row list \<Rightarrow> daily_stats_row list" where
  "upsert_row r [] = [r]"
| "upsert_row r (x # xs) =
     (if user_id x = user_id r \<and> date x = date r
      then x\<lparr>energy := energy r, battery_earned := battery_earned r,
              bonus_applied := bonus_applied r\<rparr> # xs
      else x # upsert_row r xs)"

text \<open>What the column \<^verbatim>\<open>energy\<close> holds for a bound number: \<^verbatim>\<open>NULL\<close> for \<open>NaN\<close>.\<close>

fun stored_energy :: "number \<Rightarrow> number option" where
  "stored_energy NaN = None"
| "stored_energy n = Some n"

definition upsertDaily :: "db \<Rightarrow> uid \<Rightarrow> date \<Rightarrow> number \<Rightarrow> int \<Rightarrow> int \<Rightarrow> db" where
  "upsertDaily d userId day en bat bon =
     d\<lparr>daily_stats :=
         upsert_row \<lparr>user_id = userId, date = day, energy = stored_energy en,
                      battery_earned = bat, bonus_applied = bon\<rparr> (daily_stats d)\<rparr>"

record battery_row =
  earned :: int
  used :: int

definition countBatteries :: "db \<Rightarrow> uid \<Rightarrow> battery_row" where
  "countBatteries d userId =
     (let rows = filter (\<lambda>r. user_id r = userId) (daily_stats d)
      in \<lparr>earned = sum_list (map battery_earned rows),
          used = sum_list (map bonus_applied rows)\<rparr>)"

text \<open>
  Binding a parameter: the driver binds a string as text, a number as a number and
  \<open>null\<close> or \<open>undefined\<close> as \<^verbatim>\<open>NULL\<close>; it throws a \<open>TypeError\<close> for a boolean. SQLite
  takes a bound \<open>NaN\<close> as \<^verbatim>\<open>NULL\<close>.
\<close>

fun bind :: "jsval \<Rightarrow> error + sqlval" where
  "bind JUndefined = Inr SqlNull"
| "bind JNull = Inr SqlNull"
| "bind (JBool b) = Inl TypeError"
| "bind (JNum NaN) = Inr SqlNull"
| "bind (JNum n) = Inr (SqlReal n)"
| "bind (JStr s) = Inr (SqlText s)"

text \<open>
  Column affinity. The \<^verbatim>\<open>TEXT\<close> column \<^verbatim>\<open>type\<close> stores a number as its text. The
  \<^verbatim>\<open>INTEGER\<close> column \<^verbatim>\<open>points\<close> stores a number with an integer value inside the 64-bit
  range as that integer, any other number as a floating-point value, and a text that is
  a numeric literal as the number it denotes.
\<close>

fun text_affinity :: "env \<Rightarrow> sqlval \<Rightarrow> sqlval" where
  "text_affinity e (SqlReal n) = SqlText (sqlRenderNumber e n)"
| "text_affinity e (SqlInt i) = SqlText (sqlRenderNumber e (Fin (of_int i)))"
| "text_affinity e v = v"

fun integer_affinity :: "env \<Rightarrow> sqlval \<Rightarrow> sqlval" where
  "integer_affinity e (SqlReal (Fin x)) =
     (if of_int \<lfloor>x\<rfloor> = x \<and> \<bar>x\<bar> < 2 ^ 63 then SqlInt \<lfloor>x\<rfloor> else SqlReal (Fin x))"
| "integer_affinity e (SqlText s) =
     (case sqlNumericText e s of Some v \<Rightarrow> v | None \<Rightarrow> SqlText s)"
| "integer_affinity e v = v"

text \<open>
  \<^verbatim>\<open>INSERT INTO activity_log (user_id, type, points, date)\<close>: all four parameters are bound
  first, then the \<^verbatim>\<open>NOT NULL\<close> constraints of \<^verbatim>\<open>type\<close> and \<^verbatim>\<open>points\<close> are checked.
  A statement that throws changes nothing.
\<close>

definition addLog :: "env \<Rightarrow> db \<Rightarrow> uid \<Rightarrow> jsval \<Rightarrow> jsval \<Rightarrow> date \<Rightarrow> error + db" where
  "addLog e d userId type points day =
     (case bind type of
        Inl err \<Rightarrow> Inl err
      | Inr tv \<Rightarrow>
        (case bind points of
           Inl err \<Rightarrow> Inl err
         | Inr pv \<Rightarrow>
           (case text_affinity e tv of
              SqlText t \<Rightarrow>
                (case integer_affinity e pv of
                   SqlNull \<Rightarrow> Inl SqliteConstraint
                 | p \<Rightarrow> Inr (d\<lparr>activity_log := activity_log d @
                          [\<lparr>log_user_id = userId, log_type = t, log_points = p,
                            log_date = day\<rparr>]\<rparr>))
            | _ \<Rightarrow> Inl SqliteConstraint)))"

text \<open>
  \<^verbatim>\<open>SUM(points)\<close>. While every value met so far is an integer the sum is a 64-bit
  integer sum, and leaving the 64-bit range there makes the statement fail with
  \<open>integer overflow\<close>. From the first value that is not an integer on, the sum is a
  floating-point one: \<open>None\<close> below.
\<close>

fun sum_integers :: "int \<Rightarrow> sqlval list \<Rightarrow> (error + int) option" where
  "sum_integers acc [] = Some (Inr acc)"
| "sum_integers acc (SqlNull # vs) = sum_integers acc vs"
| "sum_integers acc (SqlInt i # vs) =
     (if - (2 ^ 63) \<le> acc + i \<and> acc + i < 2 ^ 63 then sum_integers (acc + i) vs
      else Some (Inl SqliteOverflow))"
| "sum_integers acc (v # vs) = None"

text \<open>
  The floating-point sum where nothing is rounded: every value and every partial sum is
  a double below \<open>2^53\<close> in magnitude.
\<close>

fun sum_exact :: "rat \<Rightarrow> sqlval list \<Rightarrow> rat option" where
  "sum_exact acc [] = Some acc"
| "sum_exact acc (SqlNull # vs) = sum_exact acc vs"
| "sum_exact acc (SqlInt i # vs) =
     (if exact_small (of_int i) \<and> exact_small (acc + of_int i)
      then sum_exact (acc + of_int i) vs else None)"
| "sum_exact acc (SqlReal (Fin x) # vs) =
     (if exact_small x \<and> exact_small (acc + x) then sum_exact (acc + x) vs else None)"
| "sum_exact acc (v # vs) = None"

text \<open>The driver hands a 64-bit integer to JavaScript as a number.\<close>

definition int64_number :: "env \<Rightarrow> int \<Rightarrow> number" where
  "int64_number e t = (if \<bar>t\<bar> < 2 ^ 53 then Fin (of_int t) else roundDouble e (of_int t))"

text \<open>\<^verbatim>\<open>SELECT COALESCE(SUM(points), 0) AS total FROM activity_log WHERE user_id = ?\<close>.\<close>

definition getTotalEnergy :: "env \<Rightarrow> db \<Rightarrow> uid \<Rightarrow> error + number" where
  "getTotalEnergy e d userId =
     (let vals = map log_points (filter (\<lambda>r. log_user_id r = userId) (activity_log d))
      in case sum_integers 0 vals of
           Some (Inl err) \<Rightarrow> Inl err
         | Some (Inr t) \<Rightarrow> Inr (int64_number e t)
         | None \<Rightarrow>
             Inr (case sum_exact 0 vals of
                    Some t \<Rightarrow> Fin t
                  | None \<Rightarrow> sqlFloatSum e vals))"

subsection \<open>ensureToday\<close>

definition ensureToday :: "env \<Rightarrow> db \<Rightarrow> uid \<Rightarrow> (error + daily_stats_row option) \<times> db" where
  "ensureToday e d userId =
     (let today = todayStr e in
      case getDailyStats d userId today of
        Some stats \<Rightarrow> (Inr (Some stats), d)
      | None \<Rightarrow>
        (let yesterday = getYesterday d userId (yesterdayStr e);
             bonusApplied =
               (case yesterday of
                  None \<Rightarrow> 0
                | Some y \<Rightarrow>
                    if battery_earned y \<noteq> 0
                    then (let batRow = countBatteries d userId;
                              available = earned batRow - used batRow
                          in if available > 0 then 1 else 0)
                    else 0);
             startEnergy = (if bonusApplied \<noteq> (0::int) then 20 else 0);
             d1 = upsertDaily d userId today (Fin startEnergy) 0 bonusApplied
         in if bonusApplied \<noteq> 0
            then (case addLog e d1 userId (JStr ''Battery Bonus'') (JNum (Fin 20)) today of
                    Inl err \<Rightarrow> (Inl err, d1)
                  | Inr d2 \<Rightarrow> (Inr (getDailyStats d2 userId today), d2))
            else (Inr (getDailyStats d1 userId today), d1)))"

subsection \<open>The routes\<close>

datatype 'a response = Status400 | Status500 error | Json 'a

record status =
  totalEnergy :: number
  todayEnergy :: "number option"
  batteries :: int
  batEarned :: bool

record me_reply = status +
  bonusActive :: bool

record log_reply = status +
  log_id :: nat
  newBattery :: bool

definition get_api_me :: "env \<Rightarrow> db \<Rightarrow> uid \<Rightarrow> me_reply response \<times> db" where
  "get_api_me e d userId =
     (case ensureToday e d userId of
        (Inl err, d1) \<Rightarrow> (Status500 err, d1)
      | (Inr stats, d1) \<Rightarrow>
          (case getTotalEnergy e d1 userId of
             Inl err \<Rightarrow> (Status500 err, d1)
           | Inr totalRow \<Rightarrow>
               (let batRow = countBatteries d1 userId
                in case stats of
                     None \<Rightarrow> (Status500 TypeError, d1)
                   | Some dailyStats \<Rightarrow>
                       (Json \<lparr>totalEnergy = totalRow,
                              todayEnergy = energy dailyStats,
                              batteries = earned batRow - used batRow,
                              batEarned = (battery_earned dailyStats \<noteq> 0),
                              bonusActive = (bonus_applied dailyStats \<noteq> 0)\<rparr>, d1))))"

definition BAT_GOAL :: rat where
  "BAT_GOAL = 65"

text \<open>What JavaScript reads from the column \<^verbatim>\<open>energy\<close>.\<close>

fun column_value :: "number option \<Rightarrow> jsval" where
  "column_value None = JNull"
| "column_value (Some n) = JNum n"

text \<open>
  \<^verbatim>\<open>POST /api/log\<close>. The date of line 205 is read before \<^verbatim>\<open>ensureToday\<close> runs; the log
  insert, the lookup of the record and the upsert use it. A record missing under that
  date makes \<^verbatim>\<open>stats.energy\<close> throw a \<open>TypeError\<close>; a failing \<^verbatim>\<open>SUM\<close> at line 222 throws
  after the insert and the upsert.
\<close>

definition post_api_log ::
  "env \<Rightarrow> db \<Rightarrow> uid \<Rightarrow> jsval \<Rightarrow> jsval \<Rightarrow> log_reply response \<times> db" where
  "post_api_log e d userId type points =
     (if \<not> truthy type \<or> points = JUndefined then (Status400, d)
      else
        (let today = routeToday e in
         case ensureToday e d userId of
           (Inl err, d1) \<Rightarrow> (Status500 err, d1)
         | (Inr _, d1) \<Rightarrow>
           (case addLog e d1 userId type points today of
              Inl err \<Rightarrow> (Status500 err, d1)
            | Inr d2 \<Rightarrow>
              (case getDailyStats d2 userId today of
                 None \<Rightarrow> (Status500 TypeError, d2)
               | Some stats \<Rightarrow>
                 (let newEnergy = math_max0 e (js_plus e (column_value (energy stats)) points);
                      batEarned' =
                        (if js_ge newEnergy BAT_GOAL \<and> battery_earned stats = 0 then 1
                         else battery_earned stats);
                      d3 = upsertDaily d2 userId today newEnergy batEarned'
                             (bonus_applied stats)
                  in case getTotalEnergy e d3 userId of
                       Inl err \<Rightarrow> (Status500 err, d3)
                     | Inr totalRow \<Rightarrow>
                         (let batRow = countBatteries d3 userId
                          in case getDailyStats d3 userId today of
                               None \<Rightarrow> (Status500 TypeError, d3)
                             | Some updatedStats \<Rightarrow>
                                 (Json \<lparr>totalEnergy = totalRow,
                                        todayEnergy = energy updatedStats,
                                        batteries = earned batRow - used batRow,
                                        batEarned = (battery_earned updatedStats \<noteq> 0),
                                        log_id = length (activity_log d2),
                                        newBattery = (battery_earned stats = 0 \<and>
                                          battery_earned updatedStats \<noteq> 0)\<rparr>, d3)))))))"

subsection \<open>Sequences of requests\<close>

text \<open>
  Every handler is synchronous: it contains no \<^verbatim>\<open>await\<close> and no callback, and the
  database driver returns only when a statement is done. So the server runs the requests
  it has received one after another, each on the database the previous one left, also
  when two of them arrive at the same time. A request comes with the clock readings and
  conversions of its moment.
\<close>

datatype request = GetMe uid | PostLog uid jsval jsval

fun handle :: "db \<Rightarrow> env \<times> request \<Rightarrow> db" where
  "handle d (e, GetMe u) = snd (get_api_me e d u)"
| "handle d (e, PostLog u type points) = snd (post_api_log e d u type points)"

fun serve :: "db \<Rightarrow> (env \<times> request) list \<Rightarrow> db" where
  "serve d [] = d"
| "serve d (q # qs) = serve (handle d q) qs"

text \<open>
  A call \<^verbatim>\<open>recordActivity(user, activityType, points)\<close> with a string and an integer is
  the request below; \<open>log_entry\<close> is the row it inserts into the log.
\<close>

definition log_request :: "env \<Rightarrow> uid \<Rightarrow> string \<times> int \<Rightarrow> env \<times> request" where
  "log_request e u a = (e, PostLog u (JStr (fst a)) (JNum (Fin (of_int (snd a)))))"

definition log_entry :: "env \<Rightarrow> uid \<Rightarrow> string \<times> int \<Rightarrow> activity_log_row" where
  "log_entry e u a =
     \<lparr>log_user_id = u, log_type = fst a, log_points = SqlInt (snd a),
      log_date = routeToday e\<rparr>"

text \<open>
  A request of user \<open>u\<close> that gets as far as \<^verbatim>\<open>ensureToday\<close>: a status request, or an
  activity that passes validation. An activity inserts at most one log entry of its own.
\<close>

fun touches :: "uid \<Rightarrow> request \<Rightarrow> bool" where
  "touches u (GetMe v) = (v = u)"
| "touches u (PostLog v type points) = (v = u \<and> truthy type \<and> points \<noteq> JUndefined)"

fun inserts :: "request \<Rightarrow> nat" where
  "inserts (GetMe u) = 0"
| "inserts (PostLog u type points) = 1"

subsection \<open>Notions of the specification\<close>

text \<open>The condition under which \<^verbatim>\<open>ensureToday\<close> sets \<^verbatim>\<open>bonusApplied = 1\<close>.\<close>

definition bonus_due :: "env \<Rightarrow> db \<Rightarrow> uid \<Rightarrow> bool" where
  "bonus_due e d u =
     (case getYesterday d u (yesterdayStr e) of
        None \<Rightarrow> False
      | Some y \<Rightarrow> battery_earned y \<noteq> 0 \<and>
                  0 < earned (countBatteries d u) - used (countBatteries d u))"

text \<open>The expression \<^verbatim>\<open>batRow.earned - batRow.used\<close> of the two routes and of \<^verbatim>\<open>ensureToday\<close>.\<close>

definition available :: "db \<Rightarrow> uid \<Rightarrow> int" where
  "available d u = earned (countBatteries d u) - used (countBatteries d u)"

text \<open>
  The battery balance in the words of the specification: the sum of the
  \<^verbatim>\<open>batteryEarned\<close> flags minus the sum of the \<^verbatim>\<open>bonusApplied\<close> flags over all
  daily records of the user.
\<close>

definition spec_battery_balance :: "db \<Rightarrow> uid \<Rightarrow> int" where
  "spec_battery_balance d u =
     (\<Sum>r \<leftarrow> filter (\<lambda>r. user_id r = u) (daily_stats d). battery_earned r) -
     (\<Sum>r \<leftarrow> filter (\<lambda>r. user_id r = u) (daily_stats d). bonus_applied r)"

text \<open>The constraint \<^verbatim>\<open>UNIQUE(user_id, date)\<close> of \<^verbatim>\<open>daily_stats\<close>.\<close>

definition unique_days :: "db \<Rightarrow> bool" where
  "unique_days d = distinct (map (\<lambda>r. (user_id r, date r)) (daily_stats d))"

text \<open>The daily records of a user and a date, and the log entries of a user and a date.\<close>

definition day_records :: "db \<Rightarrow> uid \<Rightarrow> date \<Rightarrow> daily_stats_row list" where
  "day_records d u dy = filter (\<lambda>r. user_id r = u \<and> date r = dy) (daily_stats d)"

definition day_entries :: "db \<Rightarrow> uid \<Rightarrow> date \<Rightarrow> activity_log_row list" where
  "day_entries d u dy =
     filter (\<lambda>r. log_user_id r = u \<and> log_date r = dy) (activity_log d)"

text \<open>The log entry \<^verbatim>\<open>ensureToday\<close> writes when it grants a bonus.\<close>

definition bonus_entry :: "uid \<Rightarrow> date \<Rightarrow> activity_log_row" where
  "bonus_entry u dy =
     \<lparr>log_user_id = u, log_type = ''Battery Bonus'', log_points = SqlInt 20, log_date = dy\<rparr>"

text \<open>
  Replaying the rule \<open>max(0, energy + points)\<close> of the specification, in exact
  arithmetic, over stored point values in order, from a starting energy. A stored value
  that is not a finite number cannot be replayed.
\<close>

fun spec_replay :: "rat \<Rightarrow> sqlval list \<Rightarrow> rat option" where
  "spec_replay x [] = Some x"
| "spec_replay x (SqlInt i # ps) = spec_replay (max 0 (x + of_int i)) ps"
| "spec_replay x (SqlReal (Fin p) # ps) = spec_replay (max 0 (x + p)) ps"
| "spec_replay x (v # ps) = None"

text \<open>
  A run of integer points from a starting energy in which the code's double arithmetic
  rounds nothing: every point and every sum \<open>energy + points\<close> on the way is a double
  below \<open>2^53\<close> in magnitude.
\<close>

fun exact_run :: "rat \<Rightarrow> int list \<Rightarrow> bool" where
  "exact_run x [] = True"
| "exact_run x (p # ps) =
     (exact_small (of_int p) \<and> exact_small (x + of_int p) \<and>
      exact_run (max 0 (x + of_int p)) ps)"

text \<open>The number \<open>+\<close> reads from the column \<^verbatim>\<open>energy\<close>: \<^verbatim>\<open>NULL\<close> counts as 0.\<close>

fun energy_number :: "number option \<Rightarrow> number" where
  "energy_number None = Fin 0"
| "energy_number (Some n) = n"

text \<open>The energy of today's record as \<^verbatim>\<open>ensureToday\<close> returns it.\<close>

definition start_energy :: "env \<Rightarrow> db \<Rightarrow> uid \<Rightarrow> number" where
  "start_energy e d u =
     (case fst (ensureToday e d u) of
        Inr (Some s) \<Rightarrow> energy_number (energy s)
      | _ \<Rightarrow> NaN)"

text \<open>
  A day is consistent when it has no record and no log entries, or a record whose
  energy is what the replay of the day's log entries from 0 gives.
\<close>

definition day_consistent :: "db \<Rightarrow> uid \<Rightarrow> date \<Rightarrow> bool" where
  "day_consistent d u dy =
     (case day_records d u dy of
        [] \<Rightarrow> day_entries d u dy = []
      | r # rs \<Rightarrow>
          (case spec_replay 0 (map log_points (day_entries d u dy)) of
             None \<Rightarrow> False
           | Some x \<Rightarrow> energy r = Some (Fin x)))"

text \<open>
  The lifetime total of the specification: the sum of the integer points of all log
  entries of the user; \<open>spec_volume\<close> is the sum of their magnitudes.
\<close>

fun int_points :: "sqlval \<Rightarrow> int option" where
  "int_points (SqlInt i) = Some i"
| "int_points v = None"

definition user_points :: "db \<Rightarrow> uid \<Rightarrow> sqlval list" where
  "user_points d u = map log_points (filter (\<lambda>r. log_user_id r = u) (activity_log d))"

definition spec_lifetime_total :: "db \<Rightarrow> uid \<Rightarrow> int" where
  "spec_lifetime_total d u =
     (\<Sum>v \<leftarrow> user_points d u. case int_points v of Some i \<Rightarrow> i | None \<Rightarrow> 0)"

definition spec_volume :: "db \<Rightarrow> uid \<Rightarrow> int" where
  "spec_volume d u =
     (\<Sum>v \<leftarrow> user_points d u. case int_points v of Some i \<Rightarrow> \<bar>i\<bar> | None \<Rightarrow> 0)"

definition integer_log :: "db \<Rightarrow> uid \<Rightarrow> bool" where
  "integer_log d u = list_all (\<lambda>v. int_points v \<noteq> None) (user_points d u)"

text \<open>
  Fixtures for the concrete instances: clock readings on one day, and a database in which
  user 1 earned a battery the day before. No outcome stated in an instance depends on a
  rounding or on a conversion between text and numbers: the fixture rounds nothing and
  its conversions are trivial.
\<close>

definition demo_env :: env where
  "demo_env = \<lparr>routeToday = ''2024-03-02'', todayStr = ''2024-03-02'',
     yesterdayStr = ''2024-03-01'',
     roundDouble = Fin, numberToString = (\<lambda>n. []), stringToNumber = (\<lambda>s. NaN),
     sqlNumericText = (\<lambda>s. None), sqlRenderNumber = (\<lambda>n. []),
     sqlFloatSum = (\<lambda>vs. NaN)\<rparr>"

definition demo_db :: db where
  "demo_db =
     \<lparr>daily_stats =
        [\<lparr>user_id = 1, date = ''2024-03-01'', energy = Some (Fin 70), battery_earned = 1,
          bonus_applied = 0\<rparr>],
      activity_log =
        [\<lparr>log_user_id = 1, log_type = ''read'', log_points = SqlInt 70,
          log_date = ''2024-03-01''\<rparr>]\<rparr>"

text \<open>
  A database in which user 1 logged \<open>2^62\<close> points twice the day before, and clock
  readings on the two sides of midnight.
\<close>

definition big_db :: db where
  "big_db =
     \<lparr>daily_stats =
        [\<lparr>user_id = 1, date = ''2024-03-01'', energy = Some (Fin (2 ^ 63)),
          battery_earned = 1, bonus_applied = 1\<rparr>],
      activity_log =
        [\<lparr>log_user_id = 1, log_type = ''read'', log_points = SqlInt (2 ^ 62),
          log_date = ''2024-03-01''\<rparr>,
         \<lparr>log_user_id = 1, log_type = ''read'', log_points = SqlInt (2 ^ 62),
          log_date = ''2024-03-01''\<rparr>]\<rparr>"

definition midnight_env :: env where
  "midnight_env = demo_env\<lparr>routeToday := ''2024-03-02'', todayStr := ''2024-03-03'',
     yesterdayStr := ''2024-03-02''\<rparr>"

section \<open>Properties\<close>

lemmas run_defs =
  post_api_log_def get_api_me_def ensureToday_def getDailyStats_def getYesterday_def
  countBatteries_def upsertDaily_def addLog_def getTotalEnergy_def int64_number_def
  math_max0_def js_plus_def BAT_GOAL_def Let_def log_request_def log_entry_def
  spec_battery_balance_def available_def day_consistent_def day_records_def
  day_entries_def start_energy_def user_points_def spec_volume_def integer_log_def
  spec_lifetime_total_def unique_days_def
  demo_env_def demo_db_def empty_db_def big_db_def midnight_env_def

subsection \<open>Exactly representable numbers\<close>

lemma exact_small_int: "\<bar>n\<bar> < 2 ^ 53 \<Longrightarrow> exact_small (of_int n)"
  unfolding exact_small_def by (rule bexI [of _ 0]) simp_all

lemma exact_small_int_bound:
  assumes "exact_small (of_int n)"
  shows "\<bar>n\<bar> < 2 ^ 53"
proof -
  obtain k :: nat where k: "\<bar>(of_int n :: rat) * 2 ^ k\<bar> < 2 ^ 53"
    using assms by (auto simp: exact_small_def)
  have "\<bar>(of_int n :: rat)\<bar> * 1 \<le> \<bar>of_int n\<bar> * 2 ^ k"
    by (rule mult_left_mono) simp_all
  then have "\<bar>(of_int n :: rat)\<bar> < 2 ^ 53"
    using k by (simp add: abs_mult)
  then have "(of_int \<bar>n\<bar> :: rat) < of_int (2 ^ 53)"
    by simp
  then show ?thesis
    by (simp only: of_int_less_iff)
qed

lemma exact_small_numeral [simp]:
  "\<bar>numeral w :: int\<bar> < 2 ^ 53 \<Longrightarrow> exact_small (numeral w)"
  "\<bar>numeral w :: int\<bar> < 2 ^ 53 \<Longrightarrow> exact_small (- numeral w)"
  "exact_small 0"
  using exact_small_int [of "numeral w"] exact_small_int [of "- numeral w"]
    exact_small_int [of 0]
  by simp_all

lemma exact_small_halves: "\<bar>n\<bar> < 2 ^ 53 \<Longrightarrow> exact_small (of_int n / 2)"
  unfolding exact_small_def by (rule bexI [of _ 1]) simp_all

lemma exact_small_five_halves: "exact_small (5 / 2)" "exact_small (45 / 2)"
  using exact_small_halves [of 5] exact_small_halves [of 45] by simp_all

lemma floor_five_halves: "\<lfloor>5 / 2 :: rat\<rfloor> = 2" "\<lfloor>45 / 2 :: rat\<rfloor> = 22"
  by (simp_all add: floor_eq_iff)

lemma exact_run_safe:
  assumes "0 \<le> n" and "n + (\<Sum>p \<leftarrow> ps. \<bar>p\<bar>) < 2 ^ 53"
  shows "exact_run (of_int n) ps"
  using assms
proof (induction ps arbitrary: n)
  case Nil
  then show ?case by simp
next
  case (Cons p ps)
  have rest: "0 \<le> (\<Sum>p \<leftarrow> ps. \<bar>p\<bar>)"
    by (rule sum_list_nonneg) auto
  have p: "\<bar>p\<bar> < 2 ^ 53" and np: "\<bar>n + p\<bar> < 2 ^ 53"
    using Cons.prems rest by simp_all
  have m: "max 0 (of_int n + of_int p) = (of_int (max 0 (n + p)) :: rat)"
    by (simp add: max_def)
  have "exact_run (of_int (max 0 (n + p))) ps"
    using Cons.prems rest by (intro Cons.IH) simp_all
  then show ?case
    using exact_small_int [OF p] exact_small_int [OF np] by (simp add: m)
qed

subsection \<open>Statements on the tables\<close>

lemma find_upsert_row_same:
  "find (\<lambda>x. user_id x = user_id r \<and> date x = date r) (upsert_row r xs) = Some r"
  by (induction xs) auto

lemma find_upsert_row_other:
  "u \<noteq> user_id r \<or> dy \<noteq> date r \<Longrightarrow>
   find (\<lambda>x. user_id x = u \<and> date x = dy) (upsert_row r xs) =
   find (\<lambda>x. user_id x = u \<and> date x = dy) xs"
  by (induction xs) auto

lemma upsert_row_absent:
  "find (\<lambda>x. user_id x = user_id r \<and> date x = date r) xs = None \<Longrightarrow>
   upsert_row r xs = xs @ [r]"
  by (induction xs) (auto split: if_splits)

lemma getDailyStats_upsertDaily_same:
  "getDailyStats (upsertDaily d u dy en b bo) u dy =
   Some \<lparr>user_id = u, date = dy, energy = stored_energy en, battery_earned = b,
          bonus_applied = bo\<rparr>"
  using find_upsert_row_same
    [of "\<lparr>user_id = u, date = dy, energy = stored_energy en, battery_earned = b,
          bonus_applied = bo\<rparr>" "daily_stats d"]
  by (simp add: getDailyStats_def upsertDaily_def)

lemma getDailyStats_upsertDaily_other:
  "v \<noteq> u \<or> dz \<noteq> dy \<Longrightarrow>
   getDailyStats (upsertDaily d u dy en b bo) v dz = getDailyStats d v dz"
  using find_upsert_row_other
    [of v "\<lparr>user_id = u, date = dy, energy = stored_energy en, battery_earned = b,
            bonus_applied = bo\<rparr>" dz "daily_stats d"]
  by (simp add: getDailyStats_def upsertDaily_def)

lemma upsertDaily_absent:
  "getDailyStats d u dy = None \<Longrightarrow>
   upsertDaily d u dy en b bo =
   d\<lparr>daily_stats := daily_stats d @
       [\<lparr>user_id = u, date = dy, energy = stored_energy en, battery_earned = b,
         bonus_applied = bo\<rparr>]\<rparr>"
  using upsert_row_absent
    [of "\<lparr>user_id = u, date = dy, energy = stored_energy en, battery_earned = b,
          bonus_applied = bo\<rparr>" "daily_stats d"]
  by (simp add: getDailyStats_def upsertDaily_def)

lemma activity_log_upsertDaily [simp]:
  "activity_log (upsertDaily d u dy en b bo) = activity_log d"
  by (simp add: upsertDaily_def)

lemma addLog_appends:
  assumes "addLog e d u type points dy = Inr d2"
  shows "\<exists>row. d2 = d\<lparr>activity_log := activity_log d @ [row]\<rparr> \<and>
               log_user_id row = u \<and> log_date row = dy"
  using assms by (auto simp: addLog_def split: sum.splits sqlval.splits)

lemma addLog_daily_stats:
  "addLog e d u t p dy = Inr d' \<Longrightarrow> daily_stats d' = daily_stats d"
  using addLog_appends [of e d u t p dy d'] by auto

lemma addLog_getDailyStats:
  "addLog e d u t p dy = Inr d' \<Longrightarrow> getDailyStats d' v dz = getDailyStats d v dz"
  by (simp add: getDailyStats_def addLog_daily_stats)

lemma addLog_countBatteries:
  "addLog e d u t p dy = Inr d' \<Longrightarrow> countBatteries d' v = countBatteries d v"
  by (simp add: countBatteries_def addLog_daily_stats)

lemma addLog_bonus:
  "addLog e d u (JStr ''Battery Bonus'') (JNum (Fin 20)) dy =
   Inr (d\<lparr>activity_log := activity_log d @ [bonus_entry u dy]\<rparr>)"
  by (simp add: addLog_def bonus_entry_def)

lemma addLog_integer:
  "\<bar>p\<bar> < 2 ^ 63 \<Longrightarrow>
   addLog e d u (JStr t) (JNum (Fin (of_int p))) dy =
   Inr (d\<lparr>activity_log := activity_log d @
        [\<lparr>log_user_id = u, log_type = t, log_points = SqlInt p, log_date = dy\<rparr>]\<rparr>)"
  by (simp add: addLog_def)

lemma addLog_finite:
  "addLog e d u (JStr t) (JNum (Fin p)) dy =
   Inr (d\<lparr>activity_log := activity_log d @
        [\<lparr>log_user_id = u, log_type = t,
          log_points = (if of_int \<lfloor>p\<rfloor> = p \<and> \<bar>p\<bar> < 2 ^ 63 then SqlInt \<lfloor>p\<rfloor>
                        else SqlReal (Fin p)),
          log_date = dy\<rparr>]\<rparr>)"
  by (simp add: addLog_def)

lemma addLog_null:
  "addLog e d u (JStr t) JNull dy = Inl SqliteConstraint"
  by (simp add: addLog_def)

lemma find_append_absent:
  "find P xs = None \<Longrightarrow> find P (xs @ ys) = find P ys"
  by (induction xs) (auto split: if_splits)

lemma find_append_present:
  "find P xs = Some r \<Longrightarrow> find P (xs @ ys) = Some r"
  by (induction xs) (auto split: if_splits)

lemma find_append_other:
  "\<not> P r \<Longrightarrow> find P (xs @ [r]) = find P xs"
  by (induction xs) auto

lemma find_filter:
  "find P xs = (case filter P xs of [] \<Rightarrow> None | x # ys \<Rightarrow> Some x)"
  by (induction xs) auto

lemma getDailyStats_day_records:
  "getDailyStats d u dy = (case day_records d u dy of [] \<Rightarrow> None | r # rs \<Rightarrow> Some r)"
  by (simp add: getDailyStats_def day_records_def find_filter)

lemma getDailyStats_appended:
  "getDailyStats d u dy = None \<Longrightarrow>
   getDailyStats (d\<lparr>daily_stats := daily_stats d @ [r]\<rparr>) u dy =
   (if user_id r = u \<and> date r = dy then Some r else None)"
  by (simp add: getDailyStats_def find_append_absent)



lemma sum_integers_all:
  assumes "list_all (\<lambda>v. int_points v \<noteq> None) vs"
    and "\<bar>acc\<bar> + (\<Sum>v \<leftarrow> vs. case int_points v of Some i \<Rightarrow> \<bar>i\<bar> | None \<Rightarrow> 0) < 2 ^ 63"
  shows "sum_integers acc vs =
         Some (Inr (acc + (\<Sum>v \<leftarrow> vs. case int_points v of Some i \<Rightarrow> i | None \<Rightarrow> 0)))"
  using assms
proof (induction vs arbitrary: acc)
  case Nil
  then show ?case by simp
next
  case (Cons v vs)
  obtain i where v: "v = SqlInt i"
    using Cons.prems(1) by (cases v) simp_all
  have vol: "0 \<le> (\<Sum>v \<leftarrow> vs. case int_points v of Some i \<Rightarrow> \<bar>i\<bar> | None \<Rightarrow> 0)"
    by (rule sum_list_nonneg) (auto split: option.splits)
  have b: "\<bar>acc + i\<bar> + (\<Sum>v \<leftarrow> vs. case int_points v of Some i \<Rightarrow> \<bar>i\<bar> | None \<Rightarrow> 0) < 2 ^ 63"
    using Cons.prems(2) v by simp
  then have r: "- (2 ^ 63) \<le> acc + i \<and> acc + i < 2 ^ 63"
    using vol by linarith
  have "sum_integers (acc + i) vs =
        Some (Inr (acc + i + (\<Sum>v \<leftarrow> vs. case int_points v of Some i \<Rightarrow> i | None \<Rightarrow> 0)))"
    using Cons.prems(1) b by (intro Cons.IH) simp_all
  then show ?case
    using r v by simp
qed

lemma total_le_volume:
  "\<bar>\<Sum>v \<leftarrow> vs. case int_points v of Some i \<Rightarrow> i | None \<Rightarrow> 0\<bar> \<le>
   (\<Sum>v \<leftarrow> vs. case int_points v of Some i \<Rightarrow> \<bar>i\<bar> | None \<Rightarrow> (0::int))"
  by (induction vs) (auto split: option.splits)

lemma getTotalEnergy_integer:
  assumes "integer_log d u" and "spec_volume d u < 2 ^ 53"
  shows "getTotalEnergy e d u = Inr (Fin (of_int (spec_lifetime_total d u)))"
proof -
  have "spec_volume d u < 2 ^ 63"
    using assms(2) by (rule less_trans) simp
  then have s: "sum_integers 0 (user_points d u) = Some (Inr (spec_lifetime_total d u))"
    using sum_integers_all [of "user_points d u" 0] assms(1)
    by (simp add: integer_log_def spec_volume_def spec_lifetime_total_def)
  have "\<bar>spec_lifetime_total d u\<bar> < 2 ^ 53"
    using total_le_volume [of "user_points d u"] assms(2)
    by (simp add: spec_volume_def spec_lifetime_total_def)
  then show ?thesis
    using s by (simp add: getTotalEnergy_def user_points_def [symmetric] int64_number_def)
qed

lemma sum_integers_error:
  "sum_integers acc vs = Some (Inl err) \<Longrightarrow> err = SqliteOverflow"
  by (induction acc vs rule: sum_integers.induct) (auto split: if_splits)

lemma getTotalEnergy_error:
  "getTotalEnergy e d u = Inl err \<Longrightarrow> err = SqliteOverflow"
  by (auto simp: getTotalEnergy_def Let_def sum_integers_error
        split: option.splits sum.splits)

text \<open>The constraint \<^verbatim>\<open>UNIQUE(user_id, date)\<close> holds in every state the server reaches.\<close>

lemma keys_upsert_row:
  "(\<lambda>r. (user_id r, date r)) ` set (upsert_row r xs) =
   insert (user_id r, date r) ((\<lambda>r. (user_id r, date r)) ` set xs)"
  by (induction xs) auto

lemma distinct_upsert_row:
  "distinct (map (\<lambda>r. (user_id r, date r)) xs) \<Longrightarrow>
   distinct (map (\<lambda>r. (user_id r, date r)) (upsert_row r xs))"
proof (induction xs)
  case Nil
  then show ?case by simp
next
  case (Cons x xs)
  show ?case
  proof (cases "user_id x = user_id r \<and> date x = date r")
    case True
    then show ?thesis
      using Cons.prems by simp
  next
    case False
    have ih: "distinct (map (\<lambda>r. (user_id r, date r)) (upsert_row r xs))"
      using Cons by simp
    have "(user_id x, date x) \<notin> (\<lambda>r. (user_id r, date r)) ` set (upsert_row r xs)"
      unfolding keys_upsert_row using Cons.prems False by auto
    then show ?thesis
      using ih False by auto
  qed
qed

lemma unique_days_upsertDaily:
  "unique_days d \<Longrightarrow> unique_days (upsertDaily d u dy en b bo)"
  by (simp add: unique_days_def upsertDaily_def distinct_upsert_row)

lemma find_None_key:
  "find (\<lambda>r. user_id r = u \<and> date r = dy) xs = None \<Longrightarrow>
   (u, dy) \<notin> (\<lambda>r. (user_id r, date r)) ` set xs"
  by (auto simp: find_None_iff)

subsection \<open>ensureToday\<close>

lemma ensureToday_existing:
  "getDailyStats d u (todayStr e) = Some s \<Longrightarrow> ensureToday e d u = (Inr (Some s), d)"
  by (simp add: ensureToday_def)

lemma ensureToday_new:
  assumes "getDailyStats d u (todayStr e) = None"
  shows "ensureToday e d u =
    (if bonus_due e d u
     then (Inr (Some \<lparr>user_id = u, date = todayStr e, energy = Some (Fin 20),
                      battery_earned = 0, bonus_applied = 1\<rparr>),
           d\<lparr>daily_stats := daily_stats d @
              [\<lparr>user_id = u, date = todayStr e, energy = Some (Fin 20),
                battery_earned = 0, bonus_applied = 1\<rparr>],
            activity_log := activity_log d @ [bonus_entry u (todayStr e)]\<rparr>)
     else (Inr (Some \<lparr>user_id = u, date = todayStr e, energy = Some (Fin 0),
                      battery_earned = 0, bonus_applied = 0\<rparr>),
           d\<lparr>daily_stats := daily_stats d @
              [\<lparr>user_id = u, date = todayStr e, energy = Some (Fin 0),
                battery_earned = 0, bonus_applied = 0\<rparr>]\<rparr>))"
proof (cases "bonus_due e d u")
  case True
  then have b: "(case getYesterday d u (yesterdayStr e) of None \<Rightarrow> 0
           | Some y \<Rightarrow> if battery_earned y \<noteq> 0
               then (let batRow = countBatteries d u;
                         available = earned batRow - used batRow
                     in if available > 0 then 1 else 0)
               else 0) = (1::int)"
    by (auto simp: bonus_due_def split: option.splits)
  show ?thesis
    using assms True
    by (simp add: ensureToday_def Let_def b addLog_bonus upsertDaily_absent
        getDailyStats_appended [OF assms] getDailyStats_def find_append_absent)
next
  case False
  then have b: "(case getYesterday d u (yesterdayStr e) of None \<Rightarrow> 0
           | Some y \<Rightarrow> if battery_earned y \<noteq> 0
               then (let batRow = countBatteries d u;
                         available = earned batRow - used batRow
                     in if available > 0 then 1 else 0)
               else 0) = (0::int)"
    by (auto simp: bonus_due_def split: option.splits)
  show ?thesis
    using assms False
    by (simp add: ensureToday_def Let_def b upsertDaily_absent
        getDailyStats_appended [OF assms] getDailyStats_def find_append_absent)
qed

lemma ensureToday_row:
  "\<exists>s. fst (ensureToday e d u) = Inr (Some s) \<and>
       getDailyStats (snd (ensureToday e d u)) u (todayStr e) = Some s"
proof (cases "getDailyStats d u (todayStr e)")
  case None
  then show ?thesis
    by (simp add: ensureToday_new getDailyStats_def find_append_absent)
next
  case (Some s)
  then show ?thesis
    by (simp add: ensureToday_existing)
qed

lemma ensureToday_again:
  "ensureToday e' (snd (ensureToday e d u)) u = ensureToday e d u"
  if "todayStr e' = todayStr e"
proof -
  obtain s where s: "fst (ensureToday e d u) = Inr (Some s)"
      "getDailyStats (snd (ensureToday e d u)) u (todayStr e) = Some s"
    using ensureToday_row by blast
  have "ensureToday e' (snd (ensureToday e d u)) u = (Inr (Some s), snd (ensureToday e d u))"
    using s(2) that by (simp add: ensureToday_existing)
  then show ?thesis
    using s(1) by (cases "ensureToday e d u") simp
qed

lemma getDailyStats_ensureToday_kept:
  assumes "getDailyStats d v dz = Some r"
  shows "getDailyStats (snd (ensureToday e d u)) v dz = Some r"
proof (cases "getDailyStats d u (todayStr e)")
  case None
  show ?thesis
    using assms
    by (simp add: ensureToday_new [OF None] getDailyStats_def find_append_present)
next
  case (Some s)
  then show ?thesis
    using assms by (simp add: ensureToday_existing)
qed

lemma getDailyStats_ensureToday_other:
  assumes "v \<noteq> u \<or> dz \<noteq> todayStr e"
  shows "getDailyStats (snd (ensureToday e d u)) v dz = getDailyStats d v dz"
proof (cases "getDailyStats d u (todayStr e)")
  case None
  show ?thesis
    using assms
    by (auto simp: ensureToday_new [OF None] getDailyStats_def find_append_other)
next
  case (Some s)
  then show ?thesis
    by (simp add: ensureToday_existing)
qed

lemma unique_days_ensureToday:
  assumes "unique_days d"
  shows "unique_days (snd (ensureToday e d u))"
proof (cases "getDailyStats d u (todayStr e)")
  case None
  then have "(u, todayStr e) \<notin> (\<lambda>r. (user_id r, date r)) ` set (daily_stats d)"
    unfolding getDailyStats_def by (rule find_None_key)
  then show ?thesis
    using assms by (simp add: ensureToday_new [OF None] unique_days_def)
next
  case (Some s)
  then show ?thesis
    using assms by (simp add: ensureToday_existing)
qed

lemma demo_ensureToday:
  "ensureToday demo_env demo_db 1 =
     (Inr (Some \<lparr>user_id = 1, date = ''2024-03-02'', energy = Some (Fin 20),
                  battery_earned = 0, bonus_applied = 1\<rparr>),
      \<lparr>daily_stats =
         [\<lparr>user_id = 1, date = ''2024-03-01'', energy = Some (Fin 70), battery_earned = 1,
           bonus_applied = 0\<rparr>,
          \<lparr>user_id = 1, date = ''2024-03-02'', energy = Some (Fin 20), battery_earned = 0,
           bonus_applied = 1\<rparr>],
       activity_log =
         [\<lparr>log_user_id = 1, log_type = ''read'', log_points = SqlInt 70,
           log_date = ''2024-03-01''\<rparr>,
          \<lparr>log_user_id = 1, log_type = ''Battery Bonus'', log_points = SqlInt 20,
           log_date = ''2024-03-02''\<rparr>]\<rparr>)"
  by (simp add: ensureToday_def getDailyStats_def getYesterday_def countBatteries_def
        upsertDaily_def addLog_def demo_db_def demo_env_def Let_def)

lemma demo_today: "todayStr demo_env = ''2024-03-02''" "routeToday demo_env = ''2024-03-02''"
  by (simp_all add: demo_env_def)

lemma available_spec: "available d u = spec_battery_balance d u"
  by (simp add: available_def spec_battery_balance_def countBatteries_def Let_def)

lemma start_energy_row:
  assumes "getDailyStats (snd (ensureToday e d u)) u (todayStr e) = Some stats"
  shows "start_energy e d u = energy_number (energy stats)"
  using ensureToday_row [of e d u] assms by (auto simp: start_energy_def)



text \<open>
  Claim C5. \<^verbatim>\<open>ensureToday\<close> is idempotent for a user and a date: when today's record
  exists the call returns it and leaves the database as it is, so a second call right
  after a first returns the same record and the same database as the first did: no new
  record and no new log entry, in particular no second \<open>Battery Bonus\<close>.
\<close>

theorem ensureToday_idempotent:
  "(\<forall>s. getDailyStats d u (todayStr e) = Some s \<longrightarrow> ensureToday e d u = (Inr (Some s), d)) \<and>
   ensureToday e (snd (ensureToday e d u)) u = ensureToday e d u"
proof -
  obtain s where s: "fst (ensureToday e d u) = Inr (Some s)"
      "getDailyStats (snd (ensureToday e d u)) u (todayStr e) = Some s"
    using ensureToday_row by blast
  have "ensureToday e (snd (ensureToday e d u)) u = (Inr (Some s), snd (ensureToday e d u))"
    using s(2) by (rule ensureToday_existing)
  also have "\<dots> = ensureToday e d u"
    using s(1) by (cases "ensureToday e d u") simp
  finally show ?thesis
    by (simp add: ensureToday_existing)
qed

theorem ensureToday_idempotent_witness:
  "ensureToday demo_env (snd (ensureToday demo_env demo_db 1)) 1 =
     ensureToday demo_env demo_db 1 \<and>
   activity_log (snd (ensureToday demo_env (snd (ensureToday demo_env demo_db 1)) 1)) =
     [\<lparr>log_user_id = 1, log_type = ''read'', log_points = SqlInt 70,
       log_date = ''2024-03-01''\<rparr>,
      \<lparr>log_user_id = 1, log_type = ''Battery Bonus'', log_points = SqlInt 20,
       log_date = ''2024-03-02''\<rparr>]"
  using ensureToday_idempotent [of demo_db 1 demo_env]
  by (simp add: demo_ensureToday)

subsection \<open>The route, case by case\<close>

lemma post_api_log_rejected:
  "\<not> truthy type \<or> points = JUndefined \<Longrightarrow>
   post_api_log e d u type points = (Status400, d)"
  by (simp add: post_api_log_def)

lemma post_api_log_accepted:
  assumes "truthy type" and "points \<noteq> JUndefined"
  shows "post_api_log e d u type points =
     (case addLog e (snd (ensureToday e d u)) u type points (routeToday e) of
        Inl err \<Rightarrow> (Status500 err, snd (ensureToday e d u))
      | Inr d2 \<Rightarrow>
          (case getDailyStats (snd (ensureToday e d u)) u (routeToday e) of
             None \<Rightarrow> (Status500 TypeError, d2)
           | Some stats \<Rightarrow>
               (let newEnergy = math_max0 e (js_plus e (column_value (energy stats)) points);
                    bat = (if js_ge newEnergy BAT_GOAL \<and> battery_earned stats = 0 then 1
                           else battery_earned stats);
                    d3 = upsertDaily d2 u (routeToday e) newEnergy bat (bonus_applied stats)
                in case getTotalEnergy e d3 u of
                     Inl err \<Rightarrow> (Status500 err, d3)
                   | Inr totalRow \<Rightarrow>
                       (Json \<lparr>totalEnergy = totalRow,
                              todayEnergy = stored_energy newEnergy,
                              batteries = available d3 u,
                              batEarned = (bat \<noteq> 0),
                              log_id = length (activity_log d2),
                              newBattery = (battery_earned stats = 0 \<and> bat \<noteq> 0)\<rparr>, d3))))"
proof -
  obtain s where s: "fst (ensureToday e d u) = Inr (Some s)"
    using ensureToday_row by blast
  then obtain d1 where d1: "ensureToday e d u = (Inr (Some s), d1)"
    by (cases "ensureToday e d u") simp
  show ?thesis
  proof (cases "addLog e d1 u type points (routeToday e)")
    case (Inl err)
    then show ?thesis
      using assms d1 by (simp add: post_api_log_def)
  next
    case (Inr d2)
    have g: "getDailyStats d2 u (routeToday e) = getDailyStats d1 u (routeToday e)"
      by (simp add: addLog_getDailyStats [OF Inr])
    show ?thesis
      using assms d1 Inr g
      by (simp add: post_api_log_def Let_def getDailyStats_upsertDaily_same available_def
            split: option.splits sum.splits)
  qed
qed

lemma post_api_log_db:
  assumes "truthy type" and "points \<noteq> JUndefined"
  shows "snd (post_api_log e d u type points) =
     (case addLog e (snd (ensureToday e d u)) u type points (routeToday e) of
        Inl err \<Rightarrow> snd (ensureToday e d u)
      | Inr d2 \<Rightarrow>
          (case getDailyStats (snd (ensureToday e d u)) u (routeToday e) of
             None \<Rightarrow> d2
           | Some stats \<Rightarrow>
               (let newEnergy = math_max0 e (js_plus e (column_value (energy stats)) points)
                in upsertDaily d2 u (routeToday e) newEnergy
                     (if js_ge newEnergy BAT_GOAL \<and> battery_earned stats = 0 then 1
                      else battery_earned stats)
                     (bonus_applied stats))))"
  by (simp add: post_api_log_accepted [OF assms] Let_def split: sum.splits option.splits)

lemma post_api_log_not_400:
  assumes "truthy type" and "points \<noteq> JUndefined"
  shows "fst (post_api_log e d u type points) \<noteq> Status400"
  by (simp add: post_api_log_accepted [OF assms] Let_def split: sum.splits option.splits)

lemma post_api_log_after_ensureToday:
  assumes "truthy type" and "points \<noteq> JUndefined"
  shows "post_api_log e (snd (ensureToday e d u)) u type points =
         post_api_log e d u type points"
  using assms by (simp add: post_api_log_def ensureToday_again)

lemma get_api_me_db: "snd (get_api_me e d u) = snd (ensureToday e d u)"
  by (simp add: get_api_me_def Let_def split: prod.splits sum.splits option.splits)

lemma unique_days_handle:
  assumes "unique_days d"
  shows "unique_days (handle d q)"
proof (cases q)
  case (Pair e req)
  have u1: "unique_days (snd (ensureToday e d u))" for u
    using assms by (rule unique_days_ensureToday)
  show ?thesis
  proof (cases req)
    case (GetMe u)
    then show ?thesis
      using Pair u1 by (simp add: get_api_me_db)
  next
    case (PostLog u type points)
    show ?thesis
    proof (cases "truthy type \<and> points \<noteq> JUndefined")
      case True
      then have acc: "truthy type" "points \<noteq> JUndefined"
        by simp_all
      have "unique_days d2"
        if "addLog e (snd (ensureToday e d u)) u type points (routeToday e) = Inr d2" for d2
        using u1 [of u] addLog_daily_stats [OF that] by (simp add: unique_days_def)
      then show ?thesis
        using Pair PostLog u1 [of u]
        by (simp add: post_api_log_db [OF acc] Let_def unique_days_upsertDaily
              split: sum.splits option.splits)
    next
      case False
      then show ?thesis
        using Pair PostLog assms by (auto simp: post_api_log_rejected)
    qed
  qed
qed

lemma unique_days_serve: "unique_days (serve empty_db qs)"
proof -
  have "unique_days d \<Longrightarrow> unique_days (serve d qs)" for d
    by (induction qs arbitrary: d) (simp_all add: unique_days_handle)
  then show ?thesis
    by (simp add: unique_days_def empty_db_def)
qed

subsection \<open>The battery balance\<close>

lemma earned_upsert_row:
  "sum_list (map battery_earned (filter (\<lambda>x. user_id x = v) (upsert_row r xs))) =
   sum_list (map battery_earned (filter (\<lambda>x. user_id x = v) xs)) +
   (if v = user_id r
    then battery_earned r -
         (case find (\<lambda>x. user_id x = user_id r \<and> date x = date r) xs of
            None \<Rightarrow> 0 | Some x \<Rightarrow> battery_earned x)
    else 0)"
  by (induction xs) auto

lemma used_upsert_row:
  "sum_list (map bonus_applied (filter (\<lambda>x. user_id x = v) (upsert_row r xs))) =
   sum_list (map bonus_applied (filter (\<lambda>x. user_id x = v) xs)) +
   (if v = user_id r
    then bonus_applied r -
         (case find (\<lambda>x. user_id x = user_id r \<and> date x = date r) xs of
            None \<Rightarrow> 0 | Some x \<Rightarrow> bonus_applied x)
    else 0)"
  by (induction xs) auto

lemma available_upsertDaily:
  "available (upsertDaily d u dy en b bo) v =
   available d v +
   (if v = u
    then (b - (case getDailyStats d u dy of None \<Rightarrow> 0 | Some x \<Rightarrow> battery_earned x)) -
         (bo - (case getDailyStats d u dy of None \<Rightarrow> 0 | Some x \<Rightarrow> bonus_applied x))
    else 0)"
  by (simp add: available_def countBatteries_def upsertDaily_def getDailyStats_def Let_def
        earned_upsert_row used_upsert_row)

lemma available_addLog:
  "addLog e d u t p dy = Inr d' \<Longrightarrow> available d' v = available d v"
  by (simp add: available_def addLog_countBatteries)

lemma available_ensureToday:
  assumes "0 \<le> available d v"
  shows "0 \<le> available (snd (ensureToday e d u)) v"
proof (cases "getDailyStats d u (todayStr e)")
  case None
  have "bonus_due e d u \<Longrightarrow> 0 < available d u"
    by (auto simp: bonus_due_def available_def split: option.splits)
  then show ?thesis
    using assms
    by (auto simp: ensureToday_new [OF None] available_def countBatteries_def Let_def)
next
  case (Some s)
  then show ?thesis
    using assms by (simp add: ensureToday_existing)
qed

lemma available_post_api_log:
  assumes "0 \<le> available d v"
  shows "0 \<le> available (snd (post_api_log e d u type points)) v"
proof (cases "truthy type \<and> points \<noteq> JUndefined")
  case False
  then have "post_api_log e d u type points = (Status400, d)"
    by (auto simp: post_api_log_rejected)
  then show ?thesis
    using assms by simp
next
  case True
  then have acc: "truthy type" "points \<noteq> JUndefined"
    by simp_all
  have base: "0 \<le> available (snd (ensureToday e d u)) v"
    using assms by (rule available_ensureToday)
  show ?thesis
  proof (cases "addLog e (snd (ensureToday e d u)) u type points (routeToday e)")
    case (Inl err)
    then show ?thesis
      using base by (simp add: post_api_log_db [OF acc])
  next
    case (Inr d2)
    have g: "getDailyStats d2 u (routeToday e) =
             getDailyStats (snd (ensureToday e d u)) u (routeToday e)"
      by (simp add: addLog_getDailyStats [OF Inr])
    show ?thesis
      using Inr g base
      by (simp add: post_api_log_db [OF acc] Let_def available_upsertDaily
            available_addLog [OF Inr] split: option.splits)
  qed
qed

lemma available_handle:
  "0 \<le> available d v \<Longrightarrow> 0 \<le> available (handle d q) v"
  by (cases q; cases "snd q")
     (simp_all add: get_api_me_db available_ensureToday available_post_api_log)

lemma available_serve:
  "0 \<le> available d v \<Longrightarrow> 0 \<le> available (serve d qs) v"
  by (induction qs arbitrary: d) (simp_all add: available_handle)

lemma get_api_me_batteries:
  "get_api_me e d u = (Json reply, d') \<Longrightarrow>
   d' = snd (ensureToday e d u) \<and> batteries reply = available d' u"
  by (auto simp: get_api_me_def Let_def available_def
        split: prod.splits sum.splits option.splits)

lemma bonus_needs_balance:
  assumes "getDailyStats d u (todayStr e) = None"
    and "fst (ensureToday e d u) = Inr (Some s)" and "bonus_applied s \<noteq> 0"
  shows "0 < spec_battery_balance d u"
proof -
  have "bonus_due e d u"
    using assms(2,3) by (auto simp: ensureToday_new [OF assms(1)] split: if_splits)
  then show ?thesis
    by (auto simp: bonus_due_def available_spec [symmetric] available_def
          split: option.splits)
qed

text \<open>
  Claim C6. In every state the server reaches from the empty database, whatever the
  requests, the users and the clock readings, the balance the code computes
  (\<^verbatim>\<open>earned - used\<close>) is the sum of the \<^verbatim>\<open>battery_earned\<close> flags minus the sum of the
  \<^verbatim>\<open>bonus_applied\<close> flags over the user's daily records, and it is never negative; the
  \<^verbatim>\<open>batteries\<close> field of the status reply is that number. The reason is the one the claim
  gives: \<^verbatim>\<open>ensureToday\<close> sets a \<^verbatim>\<open>bonus_applied\<close> flag only when the balance it computes
  is strictly positive. From any database with a balance that is not negative the
  balance stays so.
\<close>

theorem battery_balance_never_negative:
  "available (serve empty_db qs) u = spec_battery_balance (serve empty_db qs) u \<and>
   0 \<le> spec_battery_balance (serve empty_db qs) u \<and>
   (\<forall>e reply d'. get_api_me e (serve empty_db qs) u = (Json reply, d') \<longrightarrow>
      batteries reply = spec_battery_balance d' u \<and> 0 \<le> batteries reply) \<and>
   (\<forall>e s. getDailyStats (serve empty_db qs) u (todayStr e) = None \<and>
      fst (ensureToday e (serve empty_db qs) u) = Inr (Some s) \<and> bonus_applied s \<noteq> 0 \<longrightarrow>
      0 < spec_battery_balance (serve empty_db qs) u) \<and>
   (0 \<le> spec_battery_balance d u \<longrightarrow> 0 \<le> spec_battery_balance (serve d qs) u)"
proof -
  have z: "0 \<le> available empty_db u"
    by (simp add: available_def countBatteries_def empty_db_def)
  then have a: "0 \<le> available (serve empty_db qs) u"
    by (rule available_serve)
  have c: "batteries reply = spec_battery_balance d' u \<and> 0 \<le> batteries reply"
    if g: "get_api_me e (serve empty_db qs) u = (Json reply, d')" for e reply d'
  proof -
    have "0 \<le> available (snd (ensureToday e (serve empty_db qs) u)) u"
      using a by (rule available_ensureToday)
    then show ?thesis
      using get_api_me_batteries [OF g] by (simp add: available_spec)
  qed
  show ?thesis
  proof (intro conjI allI impI)
    show "available (serve empty_db qs) u = spec_battery_balance (serve empty_db qs) u"
      by (rule available_spec)
    show "0 \<le> spec_battery_balance (serve empty_db qs) u"
      using a by (simp add: available_spec)
  next
    fix e reply d'
    assume g: "get_api_me e (serve empty_db qs) u = (Json reply, d')"
    show "batteries reply = spec_battery_balance d' u"
      using c [OF g] by simp
    show "0 \<le> batteries reply"
      using c [OF g] by simp
  next
    fix e s
    assume "getDailyStats (serve empty_db qs) u (todayStr e) = None \<and>
      fst (ensureToday e (serve empty_db qs) u) = Inr (Some s) \<and> bonus_applied s \<noteq> 0"
    then show "0 < spec_battery_balance (serve empty_db qs) u"
      using bonus_needs_balance by blast
  next
    assume "0 \<le> spec_battery_balance d u"
    then show "0 \<le> spec_battery_balance (serve d qs) u"
      using available_serve [of d u qs] by (simp add: available_spec)
  qed
qed

theorem battery_balance_never_negative_witness:
  "spec_battery_balance
     (serve empty_db [(demo_env, PostLog 1 (JStr ''read'') (JNum (Fin 70)))]) 1 = 1 \<and>
   available (serve empty_db [(demo_env, PostLog 1 (JStr ''read'') (JNum (Fin 70)))]) 1 = 1 \<and>
   fst (get_api_me demo_env
     (serve empty_db [(demo_env, PostLog 1 (JStr ''read'') (JNum (Fin 70)))]) 1) =
     Json \<lparr>totalEnergy = Fin 70, todayEnergy = Some (Fin 70), batteries = 1,
            batEarned = True, bonusActive = False\<rparr>"
  using battery_balance_never_negative
    [of "[(demo_env, PostLog 1 (JStr ''read'') (JNum (Fin 70)))]" 1 demo_db]
  by (simp add: run_defs)

subsection \<open>The battery flag of a day\<close>

lemma post_api_log_row_kept:
  assumes "getDailyStats d v dz = Some r"
  shows "\<exists>r'. getDailyStats (snd (post_api_log e d u type points)) v dz = Some r' \<and>
              bonus_applied r' = bonus_applied r \<and>
              (battery_earned r \<noteq> 0 \<longrightarrow> battery_earned r' = battery_earned r)"
proof (cases "truthy type \<and> points \<noteq> JUndefined")
  case False
  then show ?thesis
    using assms by (auto simp: post_api_log_rejected)
next
  case True
  then have acc: "truthy type" "points \<noteq> JUndefined"
    by simp_all
  have k: "getDailyStats (snd (ensureToday e d u)) v dz = Some r"
    using assms by (rule getDailyStats_ensureToday_kept)
  show ?thesis
  proof (cases "addLog e (snd (ensureToday e d u)) u type points (routeToday e)")
    case (Inl err)
    then show ?thesis
      using k by (simp add: post_api_log_db [OF acc])
  next
    case (Inr d2)
    have k2: "getDailyStats d2 v dz = Some r"
      using k by (simp add: addLog_getDailyStats [OF Inr])
    show ?thesis
    proof (cases "getDailyStats (snd (ensureToday e d u)) u (routeToday e)")
      case None
      then show ?thesis
        using Inr k2 by (simp add: post_api_log_db [OF acc])
    next
      case (Some s)
      show ?thesis
      proof (cases "v = u \<and> dz = routeToday e")
        case same: True
        then have "s = r"
          using Some k by simp
        then show ?thesis
          using Some Inr same
          by (simp add: post_api_log_db [OF acc] Let_def getDailyStats_upsertDaily_same)
      next
        case other: False
        then show ?thesis
          using Some Inr k2
          by (simp add: post_api_log_db [OF acc] Let_def getDailyStats_upsertDaily_other)
      qed
    qed
  qed
qed

lemma handle_row_kept:
  assumes "getDailyStats d v dz = Some r"
  shows "\<exists>r'. getDailyStats (handle d q) v dz = Some r' \<and>
              bonus_applied r' = bonus_applied r \<and>
              (battery_earned r \<noteq> 0 \<longrightarrow> battery_earned r' = battery_earned r)"
proof (cases q)
  case (Pair e req)
  show ?thesis
  proof (cases req)
    case (GetMe u)
    then show ?thesis
      using Pair assms by (simp add: get_api_me_db getDailyStats_ensureToday_kept)
  next
    case (PostLog u type points)
    then show ?thesis
      using Pair post_api_log_row_kept [OF assms] by simp
  qed
qed

lemma serve_row_kept:
  assumes "getDailyStats d v dz = Some r"
  shows "\<exists>r'. getDailyStats (serve d qs) v dz = Some r' \<and>
              bonus_applied r' = bonus_applied r \<and>
              (battery_earned r \<noteq> 0 \<longrightarrow> battery_earned r' = battery_earned r)"
  using assms
proof (induction qs arbitrary: d r)
  case Nil
  then show ?case by simp
next
  case (Cons q qs)
  obtain r1 where r1: "getDailyStats (handle d q) v dz = Some r1"
      "bonus_applied r1 = bonus_applied r"
      "battery_earned r \<noteq> 0 \<longrightarrow> battery_earned r1 = battery_earned r"
    using handle_row_kept [OF Cons.prems] by blast
  obtain r2 where r2: "getDailyStats (serve (handle d q) qs) v dz = Some r2"
      "bonus_applied r2 = bonus_applied r1"
      "battery_earned r1 \<noteq> 0 \<longrightarrow> battery_earned r2 = battery_earned r1"
    using Cons.IH [OF r1(1)] by blast
  show ?case
    using r1 r2 by auto
qed

lemma post_api_log_earned_before:
  assumes "getDailyStats d u (routeToday e) = Some r" and "battery_earned r \<noteq> 0"
    and "post_api_log e d u type points = (Json reply, d')"
  shows "batEarned reply \<and> \<not> newBattery reply"
proof -
  have acc: "truthy type" "points \<noteq> JUndefined"
    using assms(3) by (auto simp: post_api_log_def split: if_splits)
  have s: "getDailyStats (snd (ensureToday e d u)) u (routeToday e) = Some r"
    using assms(1) by (rule getDailyStats_ensureToday_kept)
  show ?thesis
    using assms(2,3) s
    by (auto simp: post_api_log_accepted [OF acc] Let_def split: sum.splits)
qed

text \<open>
  Claim C2. Once the record of a user and a date has \<^verbatim>\<open>battery_earned\<close> set, it keeps
  that value through every later sequence of requests (of any user, with any points,
  negative ones included), and every later \<^verbatim>\<open>POST /api/log\<close> of that user on that day
  that replies at all answers \<^verbatim>\<open>batEarned = true\<close> and \<^verbatim>\<open>newBattery = false\<close>: the flag
  is never cleared and no second battery is minted for the day.
\<close>

theorem battery_earned_sticky:
  assumes "getDailyStats d u dy = Some r" and "battery_earned r \<noteq> 0"
  shows "\<exists>r'. getDailyStats (serve d qs) u dy = Some r' \<and>
              battery_earned r' = battery_earned r \<and>
              (\<forall>e type points reply d'.
                 routeToday e = dy \<and>
                 post_api_log e (serve d qs) u type points = (Json reply, d') \<longrightarrow>
                 batEarned reply \<and> \<not> newBattery reply)"
proof -
  obtain r' where r': "getDailyStats (serve d qs) u dy = Some r'"
      "battery_earned r' = battery_earned r"
    using serve_row_kept [OF assms(1), of qs] assms(2) by blast
  have "batEarned reply \<and> \<not> newBattery reply"
    if "routeToday e = dy \<and> post_api_log e (serve d qs) u type points = (Json reply, d')"
    for e type points reply d'
    using that r' assms(2) post_api_log_earned_before [of "serve d qs" u e r' type points reply d']
    by simp
  then show ?thesis
    using r' by blast
qed

theorem battery_earned_sticky_witness:
  "getDailyStats demo_db 1 ''2024-03-01'' =
     Some \<lparr>user_id = 1, date = ''2024-03-01'', energy = Some (Fin 70), battery_earned = 1,
            bonus_applied = 0\<rparr> \<and>
   (\<exists>r'. getDailyStats
      (serve demo_db
         [(demo_env\<lparr>routeToday := ''2024-03-01'', todayStr := ''2024-03-01'',
             yesterdayStr := ''2024-02-29''\<rparr>,
           PostLog 1 (JStr ''nap'') (JNum (Fin (- 100))))]) 1 ''2024-03-01'' = Some r' \<and>
      battery_earned r' = 1 \<and> energy r' = Some (Fin 0))"
  using battery_earned_sticky
    [of demo_db 1 "''2024-03-01''"
        "\<lparr>user_id = 1, date = ''2024-03-01'', energy = Some (Fin 70), battery_earned = 1,
          bonus_applied = 0\<rparr>"
        "[(demo_env\<lparr>routeToday := ''2024-03-01'', todayStr := ''2024-03-01'',
             yesterdayStr := ''2024-02-29''\<rparr>,
           PostLog 1 (JStr ''nap'') (JNum (Fin (- 100))))]"]
  by (simp add: run_defs)

subsection \<open>One activity\<close>

lemma new_energy_exact:
  assumes "energy_number en = Fin x" and "exact_small (x + p)"
  shows "math_max0 e (js_plus e (column_value en) (JNum (Fin p))) = Fin (max 0 (x + p))"
  using assms by (cases en) (auto simp: math_max0_def js_plus_def)

lemma user_points_upsertDaily [simp]:
  "user_points (upsertDaily d u dy en b bo) v = user_points d v"
  by (simp add: user_points_def)

lemma user_points_ensureToday:
  "user_points (snd (ensureToday e d u)) u = user_points d u \<or>
   user_points (snd (ensureToday e d u)) u = user_points d u @ [SqlInt 20]"
proof (cases "getDailyStats d u (todayStr e)")
  case None
  then show ?thesis
    by (simp add: ensureToday_new user_points_def bonus_entry_def)
next
  case (Some s)
  then show ?thesis
    by (simp add: ensureToday_existing)
qed

lemma integer_log_ensureToday:
  assumes "integer_log d u"
  shows "integer_log (snd (ensureToday e d u)) u \<and>
         spec_volume (snd (ensureToday e d u)) u \<le> spec_volume d u + 20"
  using assms user_points_ensureToday [of e d u]
  by (auto simp: integer_log_def spec_volume_def)

lemma post_api_log_integer:
  assumes "t \<noteq> []" and "routeToday e = todayStr e"
    and "getDailyStats (snd (ensureToday e d u)) u (todayStr e) = Some stats"
    and "energy_number (energy stats) = Fin x"
    and "exact_small (of_int p)" and "exact_small (x + of_int p)"
  shows "snd (post_api_log e d u (JStr t) (JNum (Fin (of_int p)))) =
     upsertDaily
       ((snd (ensureToday e d u))\<lparr>activity_log :=
          activity_log (snd (ensureToday e d u)) @ [log_entry e u (t, p)]\<rparr>)
       u (todayStr e) (Fin (max 0 (x + of_int p)))
       (if 65 \<le> max 0 (x + of_int p) \<and> battery_earned stats = 0 then 1
        else battery_earned stats)
       (bonus_applied stats)"
proof -
  have "\<bar>p\<bar> < 2 ^ 53"
    using assms(5) by (rule exact_small_int_bound)
  then have "\<bar>p\<bar> < 2 ^ 63"
    by (rule less_trans) simp
  then show ?thesis
    using assms
    by (simp add: post_api_log_db addLog_integer new_energy_exact log_entry_def
          BAT_GOAL_def Let_def)
qed

lemma post_api_log_finite:
  assumes "t \<noteq> []" and "routeToday e = todayStr e"
    and "getDailyStats (snd (ensureToday e d u)) u (todayStr e) = Some stats"
    and "energy_number (energy stats) = Fin x" and "exact_small (x + p)"
  shows "snd (post_api_log e d u (JStr t) (JNum (Fin p))) =
     upsertDaily
       ((snd (ensureToday e d u))\<lparr>activity_log :=
          activity_log (snd (ensureToday e d u)) @
          [\<lparr>log_user_id = u, log_type = t,
            log_points = (if of_int \<lfloor>p\<rfloor> = p \<and> \<bar>p\<bar> < 2 ^ 63 then SqlInt \<lfloor>p\<rfloor>
                          else SqlReal (Fin p)),
            log_date = todayStr e\<rparr>]\<rparr>)
       u (todayStr e) (Fin (max 0 (x + p)))
       (if 65 \<le> max 0 (x + p) \<and> battery_earned stats = 0 then 1
        else battery_earned stats)
       (bonus_applied stats)"
  using assms
  by (simp add: post_api_log_db addLog_finite new_energy_exact BAT_GOAL_def Let_def)

lemma post_api_log_null:
  assumes "t \<noteq> []"
  shows "post_api_log e d u (JStr t) JNull =
         (Status500 SqliteConstraint, snd (ensureToday e d u))"
  using assms by (simp add: post_api_log_accepted addLog_null)

text \<open>
  Claim C4. Take a call with a non-empty activity type and integer points that does
  not straddle midnight, where the sum \<open>energy + points\<close> is exactly representable, the
  user's log holds integers only and the magnitudes of all the user's points stay below
  \<open>2^53\<close> in sum. The handler computes the candidate energy \<open>max(0, energy + points)\<close> from
  today's record as \<^verbatim>\<open>ensureToday\<close> left it and sets \<^verbatim>\<open>battery_earned\<close> exactly when the
  candidate is at least 65 and the flag was not set; otherwise the flag keeps its value.
  The reply's \<^verbatim>\<open>newBattery\<close> is true exactly when this call set the flag. The reply
  carries the lifetime total, which is the sum of the points of all the user's log
  entries, the new one included; today's new energy; the battery balance; and whether a
  battery is earned today.
\<close>

theorem post_api_log_threshold:
  assumes "t \<noteq> []" and "routeToday e = todayStr e"
    and "start_energy e d u = Fin x" and "exact_small (x + of_int p)"
    and "integer_log d u" and "spec_volume d u + 20 + \<bar>p\<bar> < 2 ^ 53"
  shows "\<exists>stats. getDailyStats (snd (ensureToday e d u)) u (todayStr e) = Some stats \<and>
     (let cand = max 0 (x + of_int p);
          flip = (65 \<le> cand \<and> battery_earned stats = 0);
          d' = snd (post_api_log e d u (JStr t) (JNum (Fin (of_int p))))
      in getDailyStats d' u (todayStr e) =
           Some \<lparr>user_id = u, date = todayStr e, energy = Some (Fin cand),
                  battery_earned = (if flip then 1 else battery_earned stats),
                  bonus_applied = bonus_applied stats\<rparr> \<and>
         user_points d' u = user_points (snd (ensureToday e d u)) u @ [SqlInt p] \<and>
         spec_lifetime_total d' u = spec_lifetime_total (snd (ensureToday e d u)) u + p \<and>
         fst (post_api_log e d u (JStr t) (JNum (Fin (of_int p)))) =
           Json \<lparr>totalEnergy = Fin (of_int (spec_lifetime_total d' u)),
                 todayEnergy = Some (Fin cand),
                 batteries = spec_battery_balance d' u,
                 batEarned = (flip \<or> battery_earned stats \<noteq> 0),
                 log_id = length (activity_log d'),
                 newBattery = flip\<rparr>)"
proof -
  define d1 where "d1 = snd (ensureToday e d u)"
  obtain stats where s: "getDailyStats d1 u (todayStr e) = Some stats"
    unfolding d1_def using ensureToday_row by blast
  have x: "energy_number (energy stats) = Fin x"
    using start_energy_row [OF s [unfolded d1_def]] assms(3) by simp
  have vol: "0 \<le> spec_volume d u"
    unfolding spec_volume_def by (rule sum_list_nonneg) (auto split: option.splits)
  have p: "\<bar>p\<bar> < 2 ^ 53"
    using assms(6) vol by linarith
  then have ep: "exact_small (of_int p)"
    by (rule exact_small_int)
  have p63: "\<bar>p\<bar> < 2 ^ 63"
    using p by (rule less_trans) simp
  define cand where "cand = max 0 (x + of_int p)"
  define bat where "bat = (if 65 \<le> cand \<and> battery_earned stats = 0 then 1
                           else battery_earned stats)"
  define d2 where "d2 = d1\<lparr>activity_log := activity_log d1 @ [log_entry e u (t, p)]\<rparr>"
  define d3 where "d3 = upsertDaily d2 u (todayStr e) (Fin cand) bat (bonus_applied stats)"
  have db: "snd (post_api_log e d u (JStr t) (JNum (Fin (of_int p)))) = d3"
    unfolding d3_def d2_def d1_def bat_def cand_def
    by (rule post_api_log_integer [OF assms(1,2) s [unfolded d1_def] x ep assms(4)])
  have i1: "integer_log d1 u" "spec_volume d1 u \<le> spec_volume d u + 20"
    unfolding d1_def using integer_log_ensureToday [OF assms(5)] by simp_all
  have up: "user_points d3 u = user_points d1 u @ [SqlInt p]"
    by (simp add: d3_def d2_def user_points_def log_entry_def)
  have i3: "integer_log d3 u" "spec_volume d3 u = spec_volume d1 u + \<bar>p\<bar>"
      "spec_lifetime_total d3 u = spec_lifetime_total d1 u + p"
    using i1(1) by (simp_all add: integer_log_def spec_volume_def spec_lifetime_total_def up)
  have tot: "getTotalEnergy e d3 u = Inr (Fin (of_int (spec_lifetime_total d3 u)))"
    using i3(1) by (rule getTotalEnergy_integer) (use i3(2) i1(2) assms(6) in linarith)
  have a2: "addLog e d1 u (JStr t) (JNum (Fin (of_int p))) (routeToday e) = Inr d2"
    using p63 by (simp add: addLog_integer d2_def log_entry_def)
  have reply: "fst (post_api_log e d u (JStr t) (JNum (Fin (of_int p)))) =
      Json \<lparr>totalEnergy = Fin (of_int (spec_lifetime_total d3 u)),
            todayEnergy = Some (Fin cand),
            batteries = spec_battery_balance d3 u,
            batEarned = (bat \<noteq> 0),
            log_id = length (activity_log d3),
            newBattery = (battery_earned stats = 0 \<and> bat \<noteq> 0)\<rparr>"
    using assms(1,2) s x assms(4) a2 tot
    by (simp add: post_api_log_accepted d1_def [symmetric] new_energy_exact Let_def
          BAT_GOAL_def cand_def [symmetric] bat_def [symmetric] d3_def [symmetric]
          available_spec)
       (simp add: d3_def d2_def)
  have row: "getDailyStats d3 u (todayStr e) =
      Some \<lparr>user_id = u, date = todayStr e, energy = Some (Fin cand), battery_earned = bat,
             bonus_applied = bonus_applied stats\<rparr>"
    by (simp add: d3_def getDailyStats_upsertDaily_same)
  show ?thesis
    using s row up i3(3) reply
    unfolding db Let_def d1_def [symmetric] cand_def [symmetric]
    by (intro exI [of _ stats]) (auto simp: bat_def)
qed

theorem post_api_log_threshold_witness:
  "''read'' \<noteq> [] \<and> routeToday demo_env = todayStr demo_env \<and>
   start_energy demo_env empty_db 1 = Fin 0 \<and> exact_small (0 + of_int 70) \<and>
   integer_log empty_db 1 \<and> spec_volume empty_db 1 + 20 + \<bar>70\<bar> < 2 ^ 53 \<and>
   post_api_log demo_env empty_db 1 (JStr ''read'') (JNum (Fin 70)) =
     (Json \<lparr>totalEnergy = Fin 70, todayEnergy = Some (Fin 70), batteries = 1,
             batEarned = True, log_id = 1, newBattery = True\<rparr>,
      \<lparr>daily_stats =
         [\<lparr>user_id = 1, date = ''2024-03-02'', energy = Some (Fin 70), battery_earned = 1,
           bonus_applied = 0\<rparr>],
       activity_log =
         [\<lparr>log_user_id = 1, log_type = ''read'', log_points = SqlInt 70,
           log_date = ''2024-03-02''\<rparr>]\<rparr>) \<and>
   spec_lifetime_total
     (snd (post_api_log demo_env demo_db 1 (JStr ''nap'') (JNum (Fin (of_int (- 3)))))) 1 = 87 \<and>
   fst (post_api_log demo_env demo_db 1 (JStr ''nap'') (JNum (Fin (of_int (- 3))))) =
     Json \<lparr>totalEnergy = Fin 87, todayEnergy = Some (Fin 17), batteries = 0,
            batEarned = False, log_id = 3, newBattery = False\<rparr>"
proof -
  have h: "start_energy demo_env empty_db 1 = Fin 0" "integer_log empty_db 1"
      "spec_volume empty_db 1 + 20 + \<bar>70\<bar> < 2 ^ 53"
      "routeToday demo_env = todayStr demo_env"
    by (simp_all add: run_defs)
  have g: "start_energy demo_env demo_db 1 = Fin 20" "integer_log demo_db 1"
      "spec_volume demo_db 1 + 20 + \<bar>- 3\<bar> < 2 ^ 53"
    by (simp_all add: run_defs)
  have x: "exact_small (0 + of_int 70)" "exact_small (20 + of_int (- 3))"
    by simp_all
  show ?thesis
    using h x
      post_api_log_threshold [OF _ h(4) h(1) x(1) h(2) h(3), of "''read''"]
      post_api_log_threshold [OF _ h(4) g(1) x(2) g(2) g(3), of "''nap''"]
    by (simp add: run_defs)
qed

subsection \<open>A day of activities\<close>

lemma spec_replay_append:
  "spec_replay x (xs @ ys) =
     (case spec_replay x xs of None \<Rightarrow> None | Some y \<Rightarrow> spec_replay y ys)"
  by (induction x xs rule: spec_replay.induct) simp_all

lemma day_consistent_row:
  "day_consistent d u dy =
     (case getDailyStats d u dy of
        None \<Rightarrow> day_entries d u dy = []
      | Some r \<Rightarrow>
          (\<exists>x. spec_replay 0 (map log_points (day_entries d u dy)) = Some x \<and>
               energy r = Some (Fin x)))"
  by (auto simp: day_consistent_def getDailyStats_day_records split: list.splits option.splits)

lemma serve_log_requests_existing:
  assumes "getDailyStats d u (todayStr e) = Some s"
    and "energy_number (energy s) = Fin x"
    and "exact_run x (map snd acts)"
    and "\<forall>a \<in> set acts. fst a \<noteq> []"
    and "routeToday e = todayStr e"
  shows "\<exists>s' x'. getDailyStats (serve d (map (log_request e u) acts)) u (todayStr e) = Some s' \<and>
              spec_replay x (map (\<lambda>a. SqlInt (snd a)) acts) = Some x' \<and>
              energy_number (energy s') = Fin x' \<and>
              (acts \<noteq> [] \<longrightarrow> energy s' = Some (Fin x') \<and> 0 \<le> x') \<and>
              activity_log (serve d (map (log_request e u) acts)) =
                activity_log d @ map (log_entry e u) acts"
  using assms(1,2,3,4)
proof (induction acts arbitrary: d s x)
  case Nil
  then show ?case by simp
next
  case (Cons a acts)
  obtain t p where a: "a = (t, p)"
    by (cases a)
  have t: "t \<noteq> []"
    using Cons.prems(4) a by simp
  have ex: "exact_small (of_int p)" "exact_small (x + of_int p)"
      "exact_run (max 0 (x + of_int p)) (map snd acts)"
    using Cons.prems(3) a by simp_all
  have e1: "snd (ensureToday e d u) = d"
    using Cons.prems(1) by (simp add: ensureToday_existing)
  have s1: "getDailyStats (snd (ensureToday e d u)) u (todayStr e) = Some s"
    using Cons.prems(1) e1 by simp
  define cand where "cand = max 0 (x + of_int p)"
  define d' where "d' = handle d (log_request e u a)"
  have d'eq: "d' = upsertDaily (d\<lparr>activity_log := activity_log d @ [log_entry e u (t, p)]\<rparr>)
       u (todayStr e) (Fin cand)
       (if 65 \<le> cand \<and> battery_earned s = 0 then 1 else battery_earned s)
       (bonus_applied s)"
    unfolding d'_def cand_def
    using post_api_log_integer [OF t assms(5) s1 Cons.prems(2) ex(1,2)]
    by (simp add: a log_request_def e1)
  have d': "getDailyStats d' u (todayStr e) =
              Some \<lparr>user_id = u, date = todayStr e, energy = Some (Fin cand),
                     battery_earned = (if 65 \<le> cand \<and> battery_earned s = 0 then 1
                                       else battery_earned s),
                     bonus_applied = bonus_applied s\<rparr>"
    and l': "activity_log d' = activity_log d @ [log_entry e u a]"
    by (simp_all add: d'eq a getDailyStats_upsertDaily_same)
  have "\<exists>s' x'. getDailyStats (serve d' (map (log_request e u) acts)) u (todayStr e) = Some s' \<and>
          spec_replay cand (map (\<lambda>a. SqlInt (snd a)) acts) = Some x' \<and>
          energy_number (energy s') = Fin x' \<and>
          (acts \<noteq> [] \<longrightarrow> energy s' = Some (Fin x') \<and> 0 \<le> x') \<and>
          activity_log (serve d' (map (log_request e u) acts)) =
            activity_log d' @ map (log_entry e u) acts"
    using Cons.IH [OF d', of cand] ex(3) Cons.prems(4) by (simp add: cand_def)
  then obtain s' x' where s':
      "getDailyStats (serve d' (map (log_request e u) acts)) u (todayStr e) = Some s'"
      "spec_replay cand (map (\<lambda>a. SqlInt (snd a)) acts) = Some x'"
      "energy_number (energy s') = Fin x'"
      "acts \<noteq> [] \<longrightarrow> energy s' = Some (Fin x') \<and> 0 \<le> x'"
      "activity_log (serve d' (map (log_request e u) acts)) =
         activity_log d' @ map (log_entry e u) acts"
    by blast
  have "acts = [] \<Longrightarrow> energy s' = Some (Fin cand) \<and> x' = cand"
    using s'(1,2) d' by auto
  moreover have "0 \<le> cand"
    by (simp add: cand_def)
  ultimately have "energy s' = Some (Fin x') \<and> 0 \<le> x'"
    using s'(4) by (cases "acts = []") auto
  then show ?case
    using s' l' by (simp add: a d'_def cand_def)
qed

lemma day_consistent_ensureToday:
  assumes "day_consistent d u (todayStr e)"
    and "getDailyStats (snd (ensureToday e d u)) u (todayStr e) = Some s0"
  shows "\<exists>x. spec_replay 0 (map log_points (day_entries (snd (ensureToday e d u)) u (todayStr e))) =
           Some x \<and> energy s0 = Some (Fin x)"
proof (cases "getDailyStats d u (todayStr e)")
  case None
  then have "day_entries d u (todayStr e) = []"
    using assms(1) by (simp add: day_consistent_row)
  then show ?thesis
    using assms(2)
    by (auto simp: ensureToday_new [OF None] day_entries_def getDailyStats_def bonus_entry_def
          find_append_absent [OF None [unfolded getDailyStats_def]] split: if_splits)
next
  case (Some s)
  then have "s0 = s"
    using assms(2) by (simp add: ensureToday_existing)
  then show ?thesis
    using assms(1) Some by (auto simp: day_consistent_row ensureToday_existing)
qed

lemma day_entries_appended:
  assumes "activity_log d' = activity_log d @ map (log_entry e u) acts"
  shows "map log_points (day_entries d' u (routeToday e)) =
         map log_points (day_entries d u (routeToday e)) @ map (\<lambda>a. SqlInt (snd a)) acts"
  using assms by (simp add: day_entries_def log_entry_def comp_def)

text \<open>
  Claim C1. Take any non-empty sequence of \<^verbatim>\<open>recordActivity\<close> calls of one user on one
  day (the clock readings of the route and of \<^verbatim>\<open>ensureToday\<close> agree), each with a
  non-empty type and integer points, such that the double arithmetic of the code rounds
  nothing on the way: every point and every sum \<open>energy + points\<close> is exactly
  representable, as it is while the running total stays below \<open>2^53\<close>
  (\<open>exact_run_safe\<close>). The first call's \<^verbatim>\<open>ensureToday\<close> yields today's record, with energy 0
  or 20 when it had to create it. After the sequence, and so after each call of it,
  today's stored energy is a number that is not negative and equals the clamp rule
  replayed over the points of the calls from that starting energy; the log has grown by
  exactly one entry per call, holding the points as sent, also where the energy was
  clamped. When the day was consistent before, it is consistent after, and the stored
  energy is what replaying the clamp rule from 0 over all the log entries of that user
  and date gives.
\<close>

theorem energy_replays_log:
  assumes "\<forall>a \<in> set (a0 # acts). fst a \<noteq> []"
    and "routeToday e = todayStr e"
    and "start_energy e d u = Fin x0"
    and "exact_run x0 (map snd (a0 # acts))"
  shows "\<exists>s x.
     (day_records d u (todayStr e) = [] \<longrightarrow> x0 = 0 \<or> x0 = 20) \<and>
     getDailyStats (serve d (map (log_request e u) (a0 # acts))) u (todayStr e) = Some s \<and>
     energy s = Some (Fin x) \<and> 0 \<le> x \<and>
     spec_replay x0 (map (\<lambda>a. SqlInt (snd a)) (a0 # acts)) = Some x \<and>
     activity_log (serve d (map (log_request e u) (a0 # acts))) =
       activity_log (snd (ensureToday e d u)) @ map (log_entry e u) (a0 # acts) \<and>
     (day_consistent d u (todayStr e) \<longrightarrow>
        day_consistent (serve d (map (log_request e u) (a0 # acts))) u (todayStr e) \<and>
        spec_replay 0 (map log_points
          (day_entries (serve d (map (log_request e u) (a0 # acts))) u (todayStr e))) =
        Some x)"
proof -
  define d1 where "d1 = snd (ensureToday e d u)"
  define D where "D = serve d (map (log_request e u) (a0 # acts))"
  obtain s0 where s0: "fst (ensureToday e d u) = Inr (Some s0)"
      "getDailyStats d1 u (todayStr e) = Some s0"
    unfolding d1_def using ensureToday_row by blast
  have x0: "energy_number (energy s0) = Fin x0"
    using start_energy_row [OF s0(2) [unfolded d1_def]] assms(3) by simp
  have first: "x0 = 0 \<or> x0 = 20" if "day_records d u (todayStr e) = []"
  proof -
    have "getDailyStats d u (todayStr e) = None"
      using that by (simp add: getDailyStats_day_records)
    then show ?thesis
      using s0(1) x0 by (auto simp: ensureToday_new split: if_splits)
  qed
  have "handle d1 (log_request e u a0) = handle d (log_request e u a0)"
    using assms(1) by (simp add: log_request_def d1_def post_api_log_after_ensureToday)
  then have D: "D = serve d1 (map (log_request e u) (a0 # acts))"
    by (simp add: D_def)
  have ty: "\<forall>a \<in> set (a0 # acts). fst a \<noteq> []"
    using assms(1) .
  obtain s x where s: "getDailyStats D u (todayStr e) = Some s"
      "spec_replay x0 (map (\<lambda>a. SqlInt (snd a)) (a0 # acts)) = Some x"
      "energy s = Some (Fin x) \<and> 0 \<le> x"
      "activity_log D = activity_log d1 @ map (log_entry e u) (a0 # acts)"
    using serve_log_requests_existing [OF s0(2) x0 assms(4) ty assms(2)] unfolding D by blast
  have replay: "spec_replay 0 (map log_points (day_entries D u (todayStr e))) = Some x"
    if dc: "day_consistent d u (todayStr e)"
  proof -
    obtain y where y: "spec_replay 0 (map log_points (day_entries d1 u (todayStr e))) = Some y"
        "energy s0 = Some (Fin y)"
      using day_consistent_ensureToday [OF dc s0(2) [unfolded d1_def]]
      unfolding d1_def by blast
    have "y = x0"
      using y(2) x0 by simp
    then show ?thesis
      using y(1) s(2) day_entries_appended [OF s(4)] assms(2)
      by (simp add: spec_replay_append)
  qed
  have cons: "day_consistent D u (todayStr e)" if "day_consistent d u (todayStr e)"
    using replay [OF that] s(1,3) by (simp add: day_consistent_row)
  show ?thesis
    using first s replay cons unfolding D_def d1_def
    by (intro exI [of _ s] exI [of _ x]) simp
qed

theorem energy_replays_log_witness:
  "''read'' \<noteq> [] \<and> ''nap'' \<noteq> [] \<and> ''walk'' \<noteq> [] \<and>
   routeToday demo_env = todayStr demo_env \<and>
   start_energy demo_env demo_db 1 = Fin 20 \<and>
   exact_run 20 [70, - 100, 5] \<and>
   day_consistent demo_db 1 (todayStr demo_env) \<and>
   getDailyStats
     (serve demo_db (map (log_request demo_env 1)
        [(''read'', 70), (''nap'', - 100), (''walk'', 5)])) 1 ''2024-03-02'' =
     Some \<lparr>user_id = 1, date = ''2024-03-02'', energy = Some (Fin 5), battery_earned = 1,
            bonus_applied = 1\<rparr> \<and>
   spec_replay 20 [SqlInt 70, SqlInt (- 100), SqlInt 5] = Some 5 \<and>
   spec_replay 0 (map log_points (day_entries
     (serve demo_db (map (log_request demo_env 1)
        [(''read'', 70), (''nap'', - 100), (''walk'', 5)])) 1 ''2024-03-02'')) = Some 5"
proof -
  have r: "routeToday demo_env = todayStr demo_env"
    by (simp add: demo_env_def)
  have s: "start_energy demo_env demo_db 1 = Fin 20"
    by (simp add: start_energy_def demo_ensureToday)
  have x: "exact_run 20 (map snd [(''read'', 70), (''nap'', - 100), (''walk'', 5)])"
    by simp
  have t: "\<forall>a \<in> set [(''read'', 70 :: int), (''nap'', - 100), (''walk'', 5)]. fst a \<noteq> []"
    by simp
  show ?thesis
    using r s x energy_replays_log [OF t r s x]
    by (simp add: run_defs)
qed

subsection \<open>Validation\<close>

text \<open>
  Claim C8, as amended. \<^verbatim>\<open>POST /api/log\<close> answers 400 exactly when \<^verbatim>\<open>type\<close> is falsy
  (absent, \<open>null\<close>, the empty string, \<open>false\<close>, 0) or \<^verbatim>\<open>points\<close> is absent. The rejection
  comes before any statement runs and leaves the database as it was. A non-empty string
  type with integer points is never rejected.
\<close>

theorem validation_rejects:
  "(fst (post_api_log e d u type points) = Status400 \<longleftrightarrow>
      \<not> truthy type \<or> points = JUndefined) \<and>
   (fst (post_api_log e d u type points) = Status400 \<longrightarrow>
      snd (post_api_log e d u type points) = d) \<and>
   (t \<noteq> [] \<longrightarrow> fst (post_api_log e d u (JStr t) (JNum (Fin (of_int n)))) \<noteq> Status400)"
proof -
  have a: "fst (post_api_log e d u type points) = Status400 \<longleftrightarrow>
           \<not> truthy type \<or> points = JUndefined"
    using post_api_log_not_400 [of type points e d u]
    by (auto simp: post_api_log_rejected)
  have b: "fst (post_api_log e d u type points) = Status400 \<longrightarrow>
           snd (post_api_log e d u type points) = d"
    using a by (auto simp: post_api_log_rejected)
  have c: "t \<noteq> [] \<longrightarrow> fst (post_api_log e d u (JStr t) (JNum (Fin (of_int n)))) \<noteq> Status400"
    by (simp add: post_api_log_not_400)
  show ?thesis
    using a b c by blast
qed

theorem validation_rejects_witness:
  "fst (post_api_log demo_env demo_db 1 (JStr []) (JNum (Fin 5))) = Status400 \<and>
   snd (post_api_log demo_env demo_db 1 (JStr []) (JNum (Fin 5))) = demo_db \<and>
   fst (post_api_log demo_env demo_db 1 (JStr ''read'') JUndefined) = Status400 \<and>
   fst (post_api_log demo_env demo_db 1 (JStr ''read'') (JNum (Fin (of_int (- 3))))) \<noteq>
     Status400"
  using validation_rejects [of demo_env demo_db 1 "JStr []" "JNum (Fin 5)" "''read''" "- 3"]
    validation_rejects [of demo_env demo_db 1 "JStr ''read''" JUndefined "''read''" "- 3"]
  by simp

text \<open>
  Counterexample to claim C8 as stated. The claim asks for a rejection when \<^verbatim>\<open>points\<close>
  is not an integer. The code does not check that: points 2.5 are accepted and recorded.
\<close>

theorem fractional_points_counterexample:
  "(5 / 2 :: rat) \<notin> \<int> \<and>
   post_api_log demo_env empty_db 1 (JStr ''read'') (JNum (Fin (5 / 2))) =
     (Json \<lparr>totalEnergy = Fin (5 / 2), todayEnergy = Some (Fin (5 / 2)), batteries = 0,
             batEarned = False, log_id = 1, newBattery = False\<rparr>,
      \<lparr>daily_stats =
         [\<lparr>user_id = 1, date = ''2024-03-02'', energy = Some (Fin (5 / 2)),
           battery_earned = 0, bonus_applied = 0\<rparr>],
       activity_log =
         [\<lparr>log_user_id = 1, log_type = ''read'', log_points = SqlReal (Fin (5 / 2)),
           log_date = ''2024-03-02''\<rparr>]\<rparr>)"
  by (simp add: post_api_log_def ensureToday_def getDailyStats_def getYesterday_def
        countBatteries_def upsertDaily_def addLog_def getTotalEnergy_def math_max0_def
        js_plus_def BAT_GOAL_def demo_env_def empty_db_def Let_def exact_small_five_halves
        floor_five_halves)

text \<open>
  Claim C10. The check of \<^verbatim>\<open>POST /api/log\<close> lets every truthy \<^verbatim>\<open>type\<close> with every
  \<^verbatim>\<open>points\<close> other than \<open>undefined\<close> pass: points 0, 2.5, the string \<open>"5"\<close> and \<open>null\<close>
  among them. Finite numeric points, integer or not, are appended to the log as sent and,
  where the sum \<open>energy + points\<close> is exactly representable and the call does not
  straddle midnight, added to today's energy as they are, so the stored energy need not
  be an integer. For points \<open>null\<close> the check passes, \<^verbatim>\<open>ensureToday\<close> runs and its writes
  stay, and the request then fails at the \<^verbatim>\<open>NOT NULL\<close> constraint of the log insert.
\<close>

theorem validation_accepts:
  "(truthy type \<and> points \<noteq> JUndefined \<longrightarrow>
      fst (post_api_log e d u type points) \<noteq> Status400) \<and>
   (t \<noteq> [] \<longrightarrow>
      fst (post_api_log e d u (JStr t) (JNum (Fin 0))) \<noteq> Status400 \<and>
      fst (post_api_log e d u (JStr t) (JNum (Fin (5 / 2)))) \<noteq> Status400 \<and>
      fst (post_api_log e d u (JStr t) (JStr ''5'')) \<noteq> Status400 \<and>
      fst (post_api_log e d u (JStr t) JNull) \<noteq> Status400) \<and>
   (t \<noteq> [] \<and> routeToday e = todayStr e \<and> start_energy e d u = Fin x \<and>
    exact_small (x + p) \<longrightarrow>
      (\<exists>stats. getDailyStats (snd (ensureToday e d u)) u (todayStr e) = Some stats \<and>
         activity_log (snd (post_api_log e d u (JStr t) (JNum (Fin p)))) =
           activity_log (snd (ensureToday e d u)) @
           [\<lparr>log_user_id = u, log_type = t,
             log_points = (if of_int \<lfloor>p\<rfloor> = p \<and> \<bar>p\<bar> < 2 ^ 63 then SqlInt \<lfloor>p\<rfloor>
                           else SqlReal (Fin p)),
             log_date = todayStr e\<rparr>] \<and>
         getDailyStats (snd (post_api_log e d u (JStr t) (JNum (Fin p)))) u (todayStr e) =
           Some \<lparr>user_id = u, date = todayStr e,
                  energy = Some (Fin (max 0 (x + p))),
                  battery_earned =
                    (if 65 \<le> max 0 (x + p) \<and> battery_earned stats = 0
                     then 1 else battery_earned stats),
                  bonus_applied = bonus_applied stats\<rparr>)) \<and>
   (t \<noteq> [] \<longrightarrow>
      post_api_log e d u (JStr t) JNull =
        (Status500 SqliteConstraint, snd (ensureToday e d u)))"
proof -
  have a: "truthy type \<and> points \<noteq> JUndefined \<longrightarrow>
           fst (post_api_log e d u type points) \<noteq> Status400"
    by (simp add: post_api_log_not_400)
  have b: "t \<noteq> [] \<longrightarrow>
      fst (post_api_log e d u (JStr t) (JNum (Fin 0))) \<noteq> Status400 \<and>
      fst (post_api_log e d u (JStr t) (JNum (Fin (5 / 2)))) \<noteq> Status400 \<and>
      fst (post_api_log e d u (JStr t) (JStr ''5'')) \<noteq> Status400 \<and>
      fst (post_api_log e d u (JStr t) JNull) \<noteq> Status400"
    by (simp add: post_api_log_not_400)
  obtain stats where s: "getDailyStats (snd (ensureToday e d u)) u (todayStr e) = Some stats"
    using ensureToday_row by blast
  have c: "t \<noteq> [] \<and> routeToday e = todayStr e \<and> start_energy e d u = Fin x \<and>
    exact_small (x + p) \<longrightarrow>
      (\<exists>stats. getDailyStats (snd (ensureToday e d u)) u (todayStr e) = Some stats \<and>
         activity_log (snd (post_api_log e d u (JStr t) (JNum (Fin p)))) =
           activity_log (snd (ensureToday e d u)) @
           [\<lparr>log_user_id = u, log_type = t,
             log_points = (if of_int \<lfloor>p\<rfloor> = p \<and> \<bar>p\<bar> < 2 ^ 63 then SqlInt \<lfloor>p\<rfloor>
                           else SqlReal (Fin p)),
             log_date = todayStr e\<rparr>] \<and>
         getDailyStats (snd (post_api_log e d u (JStr t) (JNum (Fin p)))) u (todayStr e) =
           Some \<lparr>user_id = u, date = todayStr e,
                  energy = Some (Fin (max 0 (x + p))),
                  battery_earned =
                    (if 65 \<le> max 0 (x + p) \<and> battery_earned stats = 0
                     then 1 else battery_earned stats),
                  bonus_applied = bonus_applied stats\<rparr>)"
  proof (intro impI, elim conjE)
    assume h: "t \<noteq> []" "routeToday e = todayStr e" "start_energy e d u = Fin x"
      "exact_small (x + p)"
    have x: "energy_number (energy stats) = Fin x"
      using start_energy_row [OF s] h(3) by simp
    show "\<exists>stats. getDailyStats (snd (ensureToday e d u)) u (todayStr e) = Some stats \<and>
         activity_log (snd (post_api_log e d u (JStr t) (JNum (Fin p)))) =
           activity_log (snd (ensureToday e d u)) @
           [\<lparr>log_user_id = u, log_type = t,
             log_points = (if of_int \<lfloor>p\<rfloor> = p \<and> \<bar>p\<bar> < 2 ^ 63 then SqlInt \<lfloor>p\<rfloor>
                           else SqlReal (Fin p)),
             log_date = todayStr e\<rparr>] \<and>
         getDailyStats (snd (post_api_log e d u (JStr t) (JNum (Fin p)))) u (todayStr e) =
           Some \<lparr>user_id = u, date = todayStr e,
                  energy = Some (Fin (max 0 (x + p))),
                  battery_earned =
                    (if 65 \<le> max 0 (x + p) \<and> battery_earned stats = 0
                     then 1 else battery_earned stats),
                  bonus_applied = bonus_applied stats\<rparr>"
      using s
      by (intro exI [of _ stats])
         (simp add: post_api_log_finite [OF h(1,2) s x h(4)] getDailyStats_upsertDaily_same)
  qed
  have d: "t \<noteq> [] \<longrightarrow>
      post_api_log e d u (JStr t) JNull =
        (Status500 SqliteConstraint, snd (ensureToday e d u))"
    by (simp add: post_api_log_null)
  show ?thesis
    using a b c d by blast
qed

theorem validation_accepts_witness:
  "post_api_log demo_env demo_db 1 (JStr ''read'') JNull =
     (Status500 SqliteConstraint,
      \<lparr>daily_stats =
         [\<lparr>user_id = 1, date = ''2024-03-01'', energy = Some (Fin 70), battery_earned = 1,
           bonus_applied = 0\<rparr>,
          \<lparr>user_id = 1, date = ''2024-03-02'', energy = Some (Fin 20), battery_earned = 0,
           bonus_applied = 1\<rparr>],
       activity_log =
         [\<lparr>log_user_id = 1, log_type = ''read'', log_points = SqlInt 70,
           log_date = ''2024-03-01''\<rparr>,
          \<lparr>log_user_id = 1, log_type = ''Battery Bonus'', log_points = SqlInt 20,
           log_date = ''2024-03-02''\<rparr>]\<rparr>) \<and>
   routeToday demo_env = todayStr demo_env \<and>
   start_energy demo_env demo_db 1 = Fin 20 \<and> exact_small (20 + 5 / 2) \<and>
   getDailyStats (snd (post_api_log demo_env demo_db 1 (JStr ''read'') (JNum (Fin (5 / 2))))) 1
       ''2024-03-02'' =
     Some \<lparr>user_id = 1, date = ''2024-03-02'', energy = Some (Fin (45 / 2)),
            battery_earned = 0, bonus_applied = 1\<rparr> \<and>
   (45 / 2 :: rat) \<notin> \<int> \<and>
   fst (post_api_log demo_env demo_db 1 (JNum (Fin 7)) (JStr ''5'')) \<noteq> Status400"
proof -
  have se: "start_energy demo_env demo_db 1 = Fin 20"
    by (simp add: start_energy_def demo_ensureToday)
  have ex: "exact_small (20 + 5 / 2)"
    using exact_small_five_halves by simp
  show ?thesis
    using se ex
      validation_accepts [of "JNum (Fin 7)" "JStr ''5''" demo_env demo_db 1 "''read''" 20 "5 / 2"]
    by (simp add: demo_ensureToday demo_today getDailyStats_def floor_five_halves)
qed

subsection \<open>What a failed request leaves behind\<close>

lemma ensureToday_new_writes:
  assumes "getDailyStats d u (todayStr e) = None"
  shows "\<exists>s. getDailyStats (snd (ensureToday e d u)) u (todayStr e) = Some s \<and>
             daily_stats (snd (ensureToday e d u)) = daily_stats d @ [s] \<and>
             activity_log (snd (ensureToday e d u)) =
               activity_log d @
               (if bonus_applied s \<noteq> 0
                then [\<lparr>log_user_id = u, log_type = ''Battery Bonus'', log_points = SqlInt 20,
                       log_date = todayStr e\<rparr>]
                else [])"
  using assms
  by (simp add: ensureToday_new [OF assms] getDailyStats_def find_append_absent
        bonus_entry_def)

text \<open>
  Claim C7, as amended. The code opens no transaction and rolls nothing back. A request
  rejected by validation leaves the database unchanged. A request whose log insert
  fails (a driver \<open>TypeError\<close>, a \<^verbatim>\<open>NOT NULL\<close> violation) answers 500 and leaves the
  database exactly as its \<^verbatim>\<open>ensureToday\<close> call left it: a record created for today and
  its \<open>Battery Bonus\<close> entry stay, no activity entry is appended and no energy is
  updated. Once the insert has succeeded its entry stays whatever follows. If no record
  exists under the route's date, which needs the two clock readings to differ, the
  request answers 500 with the entry inserted and no record updated. Otherwise the
  record of the route's date is updated with the new energy, and the request answers
  with JSON reporting that energy, or with 500 when the lifetime \<^verbatim>\<open>SUM\<close> overflows, the
  insert and the update being kept. \<^verbatim>\<open>ensureToday\<close> on a day without a record appends
  the record and, exactly when the record has \<^verbatim>\<open>bonus_applied\<close> set, the one
  \<open>Battery Bonus\<close> entry.
\<close>

theorem writes_without_rollback:
  "(fst (post_api_log e d u type points) = Status400 \<longrightarrow>
      snd (post_api_log e d u type points) = d) \<and>
   (truthy type \<and> points \<noteq> JUndefined \<longrightarrow>
      (\<forall>err. addLog e (snd (ensureToday e d u)) u type points (routeToday e) = Inl err \<longrightarrow>
         post_api_log e d u type points = (Status500 err, snd (ensureToday e d u))) \<and>
      (\<forall>d2. addLog e (snd (ensureToday e d u)) u type points (routeToday e) = Inr d2 \<longrightarrow>
         (\<exists>row. d2 = (snd (ensureToday e d u))\<lparr>activity_log :=
                   activity_log (snd (ensureToday e d u)) @ [row]\<rparr> \<and>
                log_user_id row = u \<and> log_date row = routeToday e) \<and>
         activity_log (snd (post_api_log e d u type points)) = activity_log d2 \<and>
         (getDailyStats (snd (ensureToday e d u)) u (routeToday e) = None \<longrightarrow>
            post_api_log e d u type points = (Status500 TypeError, d2)) \<and>
         (\<forall>stats. getDailyStats (snd (ensureToday e d u)) u (routeToday e) = Some stats \<longrightarrow>
            (\<exists>s'. getDailyStats (snd (post_api_log e d u type points)) u (routeToday e) =
                     Some s' \<and>
                   energy s' =
                     stored_energy
                       (math_max0 e (js_plus e (column_value (energy stats)) points)) \<and>
                   (fst (post_api_log e d u type points) = Status500 SqliteOverflow \<or>
                    (\<exists>reply. fst (post_api_log e d u type points) = Json reply \<and>
                       todayEnergy reply = energy s')))))) \<and>
   (routeToday e = todayStr e \<longrightarrow>
      getDailyStats (snd (ensureToday e d u)) u (routeToday e) \<noteq> None) \<and>
   (getDailyStats d u (todayStr e) = None \<longrightarrow>
      (\<exists>s. getDailyStats (snd (ensureToday e d u)) u (todayStr e) = Some s \<and>
           daily_stats (snd (ensureToday e d u)) = daily_stats d @ [s] \<and>
           activity_log (snd (ensureToday e d u)) =
             activity_log d @
             (if bonus_applied s \<noteq> 0
              then [\<lparr>log_user_id = u, log_type = ''Battery Bonus'', log_points = SqlInt 20,
                     log_date = todayStr e\<rparr>]
              else [])))"
proof (intro conjI)
  show "fst (post_api_log e d u type points) = Status400 \<longrightarrow>
      snd (post_api_log e d u type points) = d"
  proof (cases "truthy type \<and> points \<noteq> JUndefined")
    case True
    then show ?thesis
      by (simp add: post_api_log_not_400)
  next
    case False
    then show ?thesis
      by (auto simp: post_api_log_rejected)
  qed
next
  show "truthy type \<and> points \<noteq> JUndefined \<longrightarrow>
      (\<forall>err. addLog e (snd (ensureToday e d u)) u type points (routeToday e) = Inl err \<longrightarrow>
         post_api_log e d u type points = (Status500 err, snd (ensureToday e d u))) \<and>
      (\<forall>d2. addLog e (snd (ensureToday e d u)) u type points (routeToday e) = Inr d2 \<longrightarrow>
         (\<exists>row. d2 = (snd (ensureToday e d u))\<lparr>activity_log :=
                   activity_log (snd (ensureToday e d u)) @ [row]\<rparr> \<and>
                log_user_id row = u \<and> log_date row = routeToday e) \<and>
         activity_log (snd (post_api_log e d u type points)) = activity_log d2 \<and>
         (getDailyStats (snd (ensureToday e d u)) u (routeToday e) = None \<longrightarrow>
            post_api_log e d u type points = (Status500 TypeError, d2)) \<and>
         (\<forall>stats. getDailyStats (snd (ensureToday e d u)) u (routeToday e) = Some stats \<longrightarrow>
            (\<exists>s'. getDailyStats (snd (post_api_log e d u type points)) u (routeToday e) =
                     Some s' \<and>
                   energy s' =
                     stored_energy
                       (math_max0 e (js_plus e (column_value (energy stats)) points)) \<and>
                   (fst (post_api_log e d u type points) = Status500 SqliteOverflow \<or>
                    (\<exists>reply. fst (post_api_log e d u type points) = Json reply \<and>
                       todayEnergy reply = energy s')))))"
  proof (intro impI, elim conjE, intro conjI allI impI)
    fix err
    assume "truthy type" "points \<noteq> JUndefined"
      "addLog e (snd (ensureToday e d u)) u type points (routeToday e) = Inl err"
    then show "post_api_log e d u type points = (Status500 err, snd (ensureToday e d u))"
      by (simp add: post_api_log_accepted)
  next
    fix d2
    assume acc: "truthy type" "points \<noteq> JUndefined"
      and a: "addLog e (snd (ensureToday e d u)) u type points (routeToday e) = Inr d2"
    show "\<exists>row. d2 = (snd (ensureToday e d u))\<lparr>activity_log :=
                   activity_log (snd (ensureToday e d u)) @ [row]\<rparr> \<and>
                log_user_id row = u \<and> log_date row = routeToday e"
      using a by (rule addLog_appends)
    show "activity_log (snd (post_api_log e d u type points)) = activity_log d2"
      using a by (simp add: post_api_log_db [OF acc] Let_def split: option.splits)
    show "post_api_log e d u type points = (Status500 TypeError, d2)"
      if "getDailyStats (snd (ensureToday e d u)) u (routeToday e) = None"
      using a that by (simp add: post_api_log_accepted [OF acc])
    show "\<exists>s'. getDailyStats (snd (post_api_log e d u type points)) u (routeToday e) =
                     Some s' \<and>
                   energy s' =
                     stored_energy
                       (math_max0 e (js_plus e (column_value (energy stats)) points)) \<and>
                   (fst (post_api_log e d u type points) = Status500 SqliteOverflow \<or>
                    (\<exists>reply. fst (post_api_log e d u type points) = Json reply \<and>
                       todayEnergy reply = energy s'))"
      if "getDailyStats (snd (ensureToday e d u)) u (routeToday e) = Some stats" for stats
      using a that
      by (auto simp: post_api_log_accepted [OF acc] Let_def getDailyStats_upsertDaily_same
            dest: getTotalEnergy_error split: sum.splits)
  qed
next
  show "routeToday e = todayStr e \<longrightarrow>
      getDailyStats (snd (ensureToday e d u)) u (routeToday e) \<noteq> None"
    using ensureToday_row [of e d u] by auto
next
  show "getDailyStats d u (todayStr e) = None \<longrightarrow>
      (\<exists>s. getDailyStats (snd (ensureToday e d u)) u (todayStr e) = Some s \<and>
           daily_stats (snd (ensureToday e d u)) = daily_stats d @ [s] \<and>
           activity_log (snd (ensureToday e d u)) =
             activity_log d @
             (if bonus_applied s \<noteq> 0
              then [\<lparr>log_user_id = u, log_type = ''Battery Bonus'', log_points = SqlInt 20,
                     log_date = todayStr e\<rparr>]
              else []))"
    using ensureToday_new_writes [of d u e] by blast
qed

theorem writes_without_rollback_witness:
  "post_api_log demo_env demo_db 1 (JBool True) (JNum (Fin 5)) =
     (Status500 TypeError, snd (ensureToday demo_env demo_db 1)) \<and>
   post_api_log demo_env big_db 1 (JStr ''read'') (JNum (Fin 1)) =
     (Status500 SqliteOverflow,
      \<lparr>daily_stats =
        [\<lparr>user_id = 1, date = ''2024-03-01'', energy = Some (Fin (2 ^ 63)),
          battery_earned = 1, bonus_applied = 1\<rparr>,
         \<lparr>user_id = 1, date = ''2024-03-02'', energy = Some (Fin 1),
          battery_earned = 0, bonus_applied = 0\<rparr>],
      activity_log =
        [\<lparr>log_user_id = 1, log_type = ''read'', log_points = SqlInt (2 ^ 62),
          log_date = ''2024-03-01''\<rparr>,
         \<lparr>log_user_id = 1, log_type = ''read'', log_points = SqlInt (2 ^ 62),
          log_date = ''2024-03-01''\<rparr>,
         \<lparr>log_user_id = 1, log_type = ''read'', log_points = SqlInt 1,
          log_date = ''2024-03-02''\<rparr>]\<rparr>) \<and>
   post_api_log midnight_env empty_db 1 (JStr ''read'') (JNum (Fin 1)) =
     (Status500 TypeError,
      \<lparr>daily_stats =
        [\<lparr>user_id = 1, date = ''2024-03-03'', energy = Some (Fin 0),
          battery_earned = 0, bonus_applied = 0\<rparr>],
      activity_log =
        [\<lparr>log_user_id = 1, log_type = ''read'', log_points = SqlInt 1,
          log_date = ''2024-03-02''\<rparr>]\<rparr>)"
proof -
  have a: "addLog demo_env (snd (ensureToday demo_env demo_db 1)) 1 (JBool True) (JNum (Fin 5))
             (routeToday demo_env) = Inl TypeError"
    by (simp add: addLog_def)
  have b: "post_api_log demo_env big_db 1 (JStr ''read'') (JNum (Fin 1)) =
     (Status500 SqliteOverflow,
      \<lparr>daily_stats =
        [\<lparr>user_id = 1, date = ''2024-03-01'', energy = Some (Fin (2 ^ 63)),
          battery_earned = 1, bonus_applied = 1\<rparr>,
         \<lparr>user_id = 1, date = ''2024-03-02'', energy = Some (Fin 1),
          battery_earned = 0, bonus_applied = 0\<rparr>],
      activity_log =
        [\<lparr>log_user_id = 1, log_type = ''read'', log_points = SqlInt (2 ^ 62),
          log_date = ''2024-03-01''\<rparr>,
         \<lparr>log_user_id = 1, log_type = ''read'', log_points = SqlInt (2 ^ 62),
          log_date = ''2024-03-01''\<rparr>,
         \<lparr>log_user_id = 1, log_type = ''read'', log_points = SqlInt 1,
          log_date = ''2024-03-02''\<rparr>]\<rparr>)"
    by (simp add: run_defs)
  have c: "post_api_log midnight_env empty_db 1 (JStr ''read'') (JNum (Fin 1)) =
     (Status500 TypeError,
      \<lparr>daily_stats =
        [\<lparr>user_id = 1, date = ''2024-03-03'', energy = Some (Fin 0),
          battery_earned = 0, bonus_applied = 0\<rparr>],
      activity_log =
        [\<lparr>log_user_id = 1, log_type = ''read'', log_points = SqlInt 1,
          log_date = ''2024-03-02''\<rparr>]\<rparr>)"
    by (simp add: run_defs)
  show ?thesis
    using a b c writes_without_rollback [of demo_env demo_db 1 "JBool True" "JNum (Fin 5)"]
    by simp
qed

text \<open>
  Counterexample to claim C7 as stated. The claim says that a storage error leaves the
  prior state unchanged. With points \<open>null\<close> on the first request of a day the log insert
  fails, and the record and the bonus entry that \<^verbatim>\<open>ensureToday\<close> wrote remain.
\<close>

theorem no_rollback_counterexample:
  "fst (post_api_log demo_env demo_db 1 (JStr ''read'') JNull) = Status500 SqliteConstraint \<and>
   snd (post_api_log demo_env demo_db 1 (JStr ''read'') JNull) \<noteq> demo_db \<and>
   snd (post_api_log demo_env demo_db 1 (JStr ''read'') JNull) =
      \<lparr>daily_stats =
         [\<lparr>user_id = 1, date = ''2024-03-01'', energy = Some (Fin 70), battery_earned = 1,
           bonus_applied = 0\<rparr>,
          \<lparr>user_id = 1, date = ''2024-03-02'', energy = Some (Fin 20), battery_earned = 0,
           bonus_applied = 1\<rparr>],
       activity_log =
         [\<lparr>log_user_id = 1, log_type = ''read'', log_points = SqlInt 70,
           log_date = ''2024-03-01''\<rparr>,
          \<lparr>log_user_id = 1, log_type = ''Battery Bonus'', log_points = SqlInt 20,
           log_date = ''2024-03-02''\<rparr>]\<rparr>"
  by (simp add: post_api_log_null demo_ensureToday) (simp add: demo_db_def)

subsection \<open>Two first touches of one day\<close>

lemma filter_upsert_row_other:
  "dy \<noteq> date r \<or> u \<noteq> user_id r \<Longrightarrow>
   filter (\<lambda>x. user_id x = u \<and> date x = dy) (upsert_row r xs) =
   filter (\<lambda>x. user_id x = u \<and> date x = dy) xs"
  by (induction xs) auto

lemma length_filter_upsert_row_same:
  "filter (\<lambda>x. user_id x = user_id r \<and> date x = date r) xs \<noteq> [] \<Longrightarrow>
   length (filter (\<lambda>x. user_id x = user_id r \<and> date x = date r) (upsert_row r xs)) =
   length (filter (\<lambda>x. user_id x = user_id r \<and> date x = date r) xs)"
  by (induction xs) auto

lemma day_records_upsertDaily:
  assumes "getDailyStats d v dz \<noteq> None"
  shows "length (day_records (upsertDaily d v dz en b bo) u dy) = length (day_records d u dy)"
proof (cases "u = v \<and> dy = dz")
  case True
  have "filter (\<lambda>x. user_id x = v \<and> date x = dz) (daily_stats d) \<noteq> []"
    using assms by (auto simp: getDailyStats_def find_filter split: list.splits)
  then show ?thesis
    using True
      length_filter_upsert_row_same
        [of "\<lparr>user_id = v, date = dz, energy = stored_energy en, battery_earned = b,
              bonus_applied = bo\<rparr>" "daily_stats d"]
    by (simp add: day_records_def upsertDaily_def)
next
  case False
  then show ?thesis
    using filter_upsert_row_other
        [of dy "\<lparr>user_id = v, date = dz, energy = stored_energy en, battery_earned = b,
              bonus_applied = bo\<rparr>" u "daily_stats d"]
    by (auto simp: day_records_def upsertDaily_def)
qed

lemma day_records_addLog:
  "addLog e d v t p dz = Inr d' \<Longrightarrow> day_records d' u dy = day_records d u dy"
  by (simp add: day_records_def addLog_daily_stats)

lemma used_upsertDaily:
  assumes "getDailyStats d v dz = Some s"
  shows "used (countBatteries (upsertDaily d v dz en b (bonus_applied s)) u) =
         used (countBatteries d u)"
  using assms
  by (simp add: countBatteries_def upsertDaily_def getDailyStats_def Let_def used_upsert_row)

lemma post_api_log_touch:
  assumes "truthy type" and "points \<noteq> JUndefined"
  shows "length (day_records (snd (post_api_log e d u type points)) v dy) =
           length (day_records (snd (ensureToday e d u)) v dy) \<and>
         used (countBatteries (snd (post_api_log e d u type points)) v) =
           used (countBatteries (snd (ensureToday e d u)) v) \<and>
         length (activity_log (snd (post_api_log e d u type points))) \<le>
           length (activity_log (snd (ensureToday e d u))) + 1"
proof (cases "addLog e (snd (ensureToday e d u)) u type points (routeToday e)")
  case (Inl err)
  then show ?thesis
    by (simp add: post_api_log_db [OF assms])
next
  case (Inr d2)
  obtain row where row: "d2 = (snd (ensureToday e d u))\<lparr>activity_log :=
      activity_log (snd (ensureToday e d u)) @ [row]\<rparr>"
    using addLog_appends [OF Inr] by blast
  show ?thesis
  proof (cases "getDailyStats (snd (ensureToday e d u)) u (routeToday e)")
    case None
    then show ?thesis
      using Inr row by (simp add: post_api_log_db [OF assms] day_records_def countBatteries_def)
  next
    case (Some stats)
    have g: "getDailyStats d2 u (routeToday e) = Some stats"
      using Some by (simp add: addLog_getDailyStats [OF Inr])
    then have g': "getDailyStats d2 u (routeToday e) \<noteq> None"
      by simp
    show ?thesis
      using Inr Some
      by (simp add: post_api_log_db [OF assms] Let_def day_records_upsertDaily [OF g']
            used_upsertDaily [OF g] day_records_addLog [OF Inr] addLog_countBatteries [OF Inr])
         (simp add: row)
  qed
qed

lemma ensureToday_first:
  assumes "day_records d u (todayStr e) = []"
  shows "length (day_records (snd (ensureToday e d u)) u (todayStr e)) = 1 \<and>
         used (countBatteries (snd (ensureToday e d u)) u) \<le> used (countBatteries d u) + 1 \<and>
         length (activity_log (snd (ensureToday e d u))) \<le> length (activity_log d) + 1"
proof -
  have none: "getDailyStats d u (todayStr e) = None"
    using assms by (simp add: getDailyStats_day_records)
  show ?thesis
    using assms
    by (simp add: ensureToday_new [OF none] day_records_def countBatteries_def Let_def)
qed

lemma handle_touch:
  assumes "touches u q"
  shows "length (day_records (handle d (e, q)) u dy) =
           length (day_records (snd (ensureToday e d u)) u dy) \<and>
         used (countBatteries (handle d (e, q)) u) =
           used (countBatteries (snd (ensureToday e d u)) u) \<and>
         length (activity_log (handle d (e, q))) \<le>
           length (activity_log (snd (ensureToday e d u))) + inserts q"
proof (cases q)
  case (GetMe v)
  then show ?thesis
    using assms by (simp add: get_api_me_db)
next
  case (PostLog v type points)
  then show ?thesis
    using assms post_api_log_touch [of type points e d u u dy] by simp
qed

text \<open>
  Claim C9. Two requests of one user that arrive together on a day for which the user
  has no record are served one after the other, in either order. After both, the table
  holds exactly one record of the user for that day: the first request created it and
  the \<^verbatim>\<open>ensureToday\<close> of the second changes nothing. The sum of the user's
  \<^verbatim>\<open>bonus_applied\<close> flags has grown by at most one, and besides the entries the
  activities insert for themselves the log has grown by at most one entry, the
  \<open>Battery Bonus\<close> one. Two status requests leave exactly what one \<^verbatim>\<open>ensureToday\<close>
  leaves.
\<close>

theorem first_touch_once:
  assumes "day_records d u dy = []"
    and "todayStr e1 = dy" and "todayStr e2 = dy"
    and "touches u q1" and "touches u q2"
  shows "length (day_records (serve d [(e1, q1), (e2, q2)]) u dy) = 1 \<and>
         length (day_records (handle d (e1, q1)) u dy) = 1 \<and>
         snd (ensureToday e2 (handle d (e1, q1)) u) = handle d (e1, q1) \<and>
         used (countBatteries (serve d [(e1, q1), (e2, q2)]) u) \<le>
           used (countBatteries d u) + 1 \<and>
         length (activity_log (serve d [(e1, q1), (e2, q2)])) \<le>
           length (activity_log d) + 1 + inserts q1 + inserts q2 \<and>
         (q1 = GetMe u \<and> q2 = GetMe u \<longrightarrow>
            serve d [(e1, q1), (e2, q2)] = snd (ensureToday e1 d u))"
proof -
  define D1 where "D1 = handle d (e1, q1)"
  have f: "length (day_records (snd (ensureToday e1 d u)) u dy) = 1"
      "used (countBatteries (snd (ensureToday e1 d u)) u) \<le> used (countBatteries d u) + 1"
      "length (activity_log (snd (ensureToday e1 d u))) \<le> length (activity_log d) + 1"
    using ensureToday_first [of d u e1] assms(1,2) by simp_all
  have h1: "length (day_records D1 u dy) = 1"
      "used (countBatteries D1 u) \<le> used (countBatteries d u) + 1"
      "length (activity_log D1) \<le> length (activity_log d) + 1 + inserts q1"
    unfolding D1_def using handle_touch [OF assms(4), of d e1 dy] f by simp_all
  obtain r where r: "getDailyStats D1 u (todayStr e2) = Some r"
    using h1(1) assms(3)
    by (cases "day_records D1 u dy") (simp_all add: getDailyStats_day_records)
  have again: "snd (ensureToday e2 D1 u) = D1"
    using r by (simp add: ensureToday_existing)
  have h2: "length (day_records (handle D1 (e2, q2)) u dy) = 1"
      "used (countBatteries (handle D1 (e2, q2)) u) \<le> used (countBatteries d u) + 1"
      "length (activity_log (handle D1 (e2, q2))) \<le>
         length (activity_log d) + 1 + inserts q1 + inserts q2"
    using handle_touch [OF assms(5), of D1 e2 dy] h1 by (simp_all add: again)
  have me: "serve d [(e1, q1), (e2, q2)] = snd (ensureToday e1 d u)"
    if "q1 = GetMe u \<and> q2 = GetMe u"
    using that again by (simp add: get_api_me_db D1_def)
  show ?thesis
    using h1(1) h2 again me by (simp add: D1_def)
qed

theorem first_touch_once_witness:
  "day_records demo_db 1 ''2024-03-02'' = [] \<and>
   serve demo_db [(demo_env, GetMe 1), (demo_env, PostLog 1 (JStr ''read'') (JNum (Fin 5)))] =
     \<lparr>daily_stats =
         [\<lparr>user_id = 1, date = ''2024-03-01'', energy = Some (Fin 70), battery_earned = 1,
           bonus_applied = 0\<rparr>,
          \<lparr>user_id = 1, date = ''2024-03-02'', energy = Some (Fin 25), battery_earned = 0,
           bonus_applied = 1\<rparr>],
       activity_log =
         [\<lparr>log_user_id = 1, log_type = ''read'', log_points = SqlInt 70,
           log_date = ''2024-03-01''\<rparr>,
          \<lparr>log_user_id = 1, log_type = ''Battery Bonus'', log_points = SqlInt 20,
           log_date = ''2024-03-02''\<rparr>,
          \<lparr>log_user_id = 1, log_type = ''read'', log_points = SqlInt 5,
           log_date = ''2024-03-02''\<rparr>]\<rparr> \<and>
   length (day_records
     (serve demo_db [(demo_env, GetMe 1), (demo_env, PostLog 1 (JStr ''read'') (JNum (Fin 5)))])
     1 ''2024-03-02'') = 1 \<and>
   serve demo_db [(demo_env, GetMe 1), (demo_env, GetMe 1)] =
     snd (ensureToday demo_env demo_db 1)"
proof -
  have a: "day_records demo_db 1 ''2024-03-02'' = []"
    by (simp add: day_records_def demo_db_def)
  have b: "serve demo_db
      [(demo_env, GetMe 1), (demo_env, PostLog 1 (JStr ''read'') (JNum (Fin 5)))] =
     \<lparr>daily_stats =
         [\<lparr>user_id = 1, date = ''2024-03-01'', energy = Some (Fin 70), battery_earned = 1,
           bonus_applied = 0\<rparr>,
          \<lparr>user_id = 1, date = ''2024-03-02'', energy = Some (Fin 25), battery_earned = 0,
           bonus_applied = 1\<rparr>],
       activity_log =
         [\<lparr>log_user_id = 1, log_type = ''read'', log_points = SqlInt 70,
           log_date = ''2024-03-01''\<rparr>,
          \<lparr>log_user_id = 1, log_type = ''Battery Bonus'', log_points = SqlInt 20,
           log_date = ''2024-03-02''\<rparr>,
          \<lparr>log_user_id = 1, log_type = ''read'', log_points = SqlInt 5,
           log_date = ''2024-03-02''\<rparr>]\<rparr>"
    by (simp add: run_defs)
  show ?thesis
    using a b
      first_touch_once [of demo_db 1 "''2024-03-02''" demo_env demo_env "GetMe 1"
        "PostLog 1 (JStr ''read'') (JNum (Fin 5))"]
      first_touch_once [of demo_db 1 "''2024-03-02''" demo_env demo_env "GetMe 1" "GetMe 1"]
    by (simp add: demo_today)
qed

end
